theory Spec2Isabelle
  imports Main "HOL-Library.Sublist"
begin

section \<open>The relational store behind the product router\<close>

text \<open>
  The router (\<^verbatim>\<open>productRouter\<close>) talks to the store through an ORM client
  (\<^verbatim>\<open>ctx.prisma\<close>). The store is modelled as a record of tables, each table a list
  of rows in insertion order. Ids are strings, as the input schemas of the router say
  (\<^verbatim>\<open>z.string()\<close>). Numbers (price, weight) are values of a type parameter \<open>'n\<close>:
  they are whatever \<^verbatim>\<open>parseFloat\<close> returns.
\<close>

type_synonym ident = string

record 'n product =
  product_id :: ident
  product_name :: string
  product_price :: 'n
  product_weight :: 'n
  product_description :: string
  product_isActive :: bool
  product_createdAt :: int

record image =
  image_id :: ident
  image_src :: string
  image_alt :: string
  image_productId :: ident

record variant =
  variant_id :: ident
  variant_name :: string
  variant_imageSrc :: string
  variant_type :: string
  variant_productId :: ident

record category =
  category_id :: ident
  category_name :: string
  category_isActive :: bool

record settings =
  settings_name :: string
  settings_value :: string

text \<open>
  \<open>product_categories\<close> is the join table of the many-to-many relation between
  products and categories: pairs (product id, category id). \<open>next_id\<close> counts the
  records created so far and \<open>clock\<close> is the store's current time; both feed the
  column defaults of new rows.
\<close>

record 'n db =
  products :: "'n product list"
  images :: "image list"
  variants :: "variant list"
  categories :: "category list"
  product_categories :: "(ident \<times> ident) list"
  settings_table :: "settings list"
  next_id :: nat
  clock :: int

text \<open>
  What the router takes from its platform and from the schema declaration, which is not
  part of the sources: the global \<^verbatim>\<open>parseFloat\<close>, which numbers are finite
  (\<^verbatim>\<open>parseFloat\<close> gives \<^verbatim>\<open>NaN\<close> on a string that does not start with a number,
  and an infinity on one like \<^verbatim>\<open>1e999\<close>), the id the store gives to its \<open>k\<close>-th
  created record, and the default of \<^verbatim>\<open>Product.isActive\<close>. Every theorem below holds
  for any choice of the four.
\<close>

record 'n platform =
  parseFloat :: "string \<Rightarrow> 'n"
  isFinite :: "'n \<Rightarrow> bool"
  cuid :: "nat \<Rightarrow> ident"
  default_isActive :: bool

text \<open>
  The errors a procedure can end with. \<open>BadRequest\<close> comes from the procedure's own
  input parser, which refuses an input before the body runs; the others come from the
  client of the store. \<open>ValidationError\<close> is the client refusing the arguments of a
  call, so that the call writes nothing: an undefined id, or a number that is not
  finite in a numeric column.
\<close>

datatype prisma_error =
  RecordNotFound
  | ForeignKeyViolation
  | ValidationError
  | StoreFailure string
  | BadRequest

subsection \<open>Client operations\<close>

definition product_findUnique :: "'n db \<Rightarrow> ident \<Rightarrow> 'n product option" where
  "product_findUnique d pid = find (\<lambda>p. product_id p = pid) (products d)"

definition product_findUniqueOrThrow :: "'n db \<Rightarrow> ident option \<Rightarrow> prisma_error + 'n product" where
  "product_findUniqueOrThrow d input_id =
     (case input_id of
        None \<Rightarrow> Inl ValidationError
      | Some pid \<Rightarrow>
          (case product_findUnique d pid of
             None \<Rightarrow> Inl RecordNotFound
           | Some p \<Rightarrow> Inr p))"

text \<open>
  \<^verbatim>\<open>product.update({ where: { id }, data })\<close> on scalar columns: the row with the id
  is rewritten by \<open>f\<close>; a missing row is an error of the store.
\<close>

definition product_update ::
  "'n db \<Rightarrow> ident option \<Rightarrow> ('n product \<Rightarrow> 'n product) \<Rightarrow> prisma_error + 'n db" where
  "product_update d input_id f =
     (case input_id of
        None \<Rightarrow> Inl ValidationError
      | Some pid \<Rightarrow>
          (case product_findUnique d pid of
             None \<Rightarrow> Inl RecordNotFound
           | Some _ \<Rightarrow>
               Inr (d\<lparr>products := map (\<lambda>p. if product_id p = pid then f p else p) (products d)\<rparr>)))"

definition category_findUnique :: "'n db \<Rightarrow> ident \<Rightarrow> category option" where
  "category_findUnique d cid = find (\<lambda>c. category_id c = cid) (categories d)"

definition category_findUniqueOrThrow :: "'n db \<Rightarrow> ident option \<Rightarrow> prisma_error + category" where
  "category_findUniqueOrThrow d input_id =
     (case input_id of
        None \<Rightarrow> Inl ValidationError
      | Some cid \<Rightarrow>
          (case category_findUnique d cid of
             None \<Rightarrow> Inl RecordNotFound
           | Some c \<Rightarrow> Inr c))"

definition category_update ::
  "'n db \<Rightarrow> ident option \<Rightarrow> (category \<Rightarrow> category) \<Rightarrow> prisma_error + 'n db" where
  "category_update d input_id f =
     (case input_id of
        None \<Rightarrow> Inl ValidationError
      | Some cid \<Rightarrow>
          (case category_findUnique d cid of
             None \<Rightarrow> Inl RecordNotFound
           | Some _ \<Rightarrow>
               Inr (d\<lparr>categories := map (\<lambda>c. if category_id c = cid then f c else c) (categories d)\<rparr>)))"

text \<open>
  \<^verbatim>\<open>product.update\<close> with \<^verbatim>\<open>data: { name, price, weight, description }\<close>: the
  client refuses a price or a weight that is not a finite number, and then the row
  is not touched; otherwise the four columns of the row are written.
\<close>

definition product_update_scalars ::
  "'n platform \<Rightarrow> 'n db \<Rightarrow> ident \<Rightarrow> string \<Rightarrow> 'n \<Rightarrow> 'n \<Rightarrow> string \<Rightarrow> prisma_error + 'n db" where
  "product_update_scalars pf d pid nm pr wt ds =
     (if isFinite pf pr \<and> isFinite pf wt
      then product_update d (Some pid)
             (\<lambda>p. p\<lparr>product_name := nm,
                     product_price := pr,
                     product_weight := wt,
                     product_description := ds\<rparr>)
      else Inl ValidationError)"

text \<open>
  \<^verbatim>\<open>data: { categories: { set: [] } }\<close> drops every row of the join table that
  belongs to the product.
\<close>

definition product_update_categories_set_empty :: "'n db \<Rightarrow> ident \<Rightarrow> prisma_error + 'n db" where
  "product_update_categories_set_empty d pid =
     (case product_findUnique d pid of
        None \<Rightarrow> Inl RecordNotFound
      | Some _ \<Rightarrow>
          Inr (d\<lparr>product_categories := filter (\<lambda>pc. fst pc \<noteq> pid) (product_categories d)\<rparr>))"

text \<open>
  \<^verbatim>\<open>data: { categories: { connect: { id } } }\<close> adds one row to the join table; the
  category has to exist, and connecting an already connected category changes nothing.
\<close>

definition product_update_categories_connect ::
  "'n db \<Rightarrow> ident \<Rightarrow> ident \<Rightarrow> prisma_error + 'n db" where
  "product_update_categories_connect d pid cid =
     (case product_findUnique d pid of
        None \<Rightarrow> Inl RecordNotFound
      | Some _ \<Rightarrow>
          (case category_findUnique d cid of
             None \<Rightarrow> Inl RecordNotFound
           | Some _ \<Rightarrow>
               (if (pid, cid) \<in> set (product_categories d) then Inr d
                else Inr (d\<lparr>product_categories := product_categories d @ [(pid, cid)]\<rparr>))))"

subsection \<open>Relations of a product\<close>

definition images_of :: "'n db \<Rightarrow> ident \<Rightarrow> image list" where
  "images_of d pid = filter (\<lambda>i. image_productId i = pid) (images d)"

definition variants_of :: "'n db \<Rightarrow> ident \<Rightarrow> variant list" where
  "variants_of d pid = filter (\<lambda>v. variant_productId v = pid) (variants d)"

definition categories_of :: "'n db \<Rightarrow> ident \<Rightarrow> category list" where
  "categories_of d pid =
     filter (\<lambda>c. (pid, category_id c) \<in> set (product_categories d)) (categories d)"

definition membership :: "'n db \<Rightarrow> ident \<Rightarrow> ident list" where
  "membership d pid = map snd (filter (\<lambda>pc. fst pc = pid) (product_categories d))"


text \<open>
  \<^verbatim>\<open>product.findMany\<close> with \<^verbatim>\<open>include: { images: true, categories: true }\<close> and
  \<^verbatim>\<open>orderBy: { createdAt: 'desc' }\<close>: the rows that satisfy the \<^verbatim>\<open>where\<close>
  condition, newest first, each with its images and its categories. Rows of equal
  \<open>createdAt\<close> keep their table order.
\<close>

type_synonym 'n product_included = "'n product \<times> image list \<times> category list"

definition product_findMany_included ::
  "'n db \<Rightarrow> ('n product \<Rightarrow> bool) \<Rightarrow> 'n product_included list" where
  "product_findMany_included d cond =
     map (\<lambda>p. (p, images_of d (product_id p), categories_of d (product_id p)))
       (sort_key (\<lambda>p. - product_createdAt p) (filter cond (products d)))"

text \<open>
  \<^verbatim>\<open>product.create\<close> with nested \<^verbatim>\<open>createMany\<close> for images and variants: one call
  of the client. The client refuses a price or a weight that is not a finite number,
  and then nothing is written. Otherwise the new product takes the next id, its images
  and variants the ids after it; \<open>isActive\<close> and \<open>createdAt\<close> take their defaults.
\<close>

record image_data =
  data_src :: string
  data_alt :: string

record variant_data =
  data_name :: string
  data_imageSrc :: string
  data_type :: string

record 'n product_create_data =
  create_name :: string
  create_price :: 'n
  create_weight :: 'n
  create_description :: string
  create_images :: "image_data list"
  create_variants :: "variant_data list"

definition product_create ::
  "'n platform \<Rightarrow> 'n db \<Rightarrow> 'n product_create_data \<Rightarrow> prisma_error + 'n db" where
  "product_create pf d dat =
     (if \<not> (isFinite pf (create_price dat) \<and> isFinite pf (create_weight dat))
      then Inl ValidationError
      else
      let pid = cuid pf (next_id d);
          row = \<lparr>product_id = pid,
                 product_name = create_name dat,
                 product_price = create_price dat,
                 product_weight = create_weight dat,
                 product_description = create_description dat,
                 product_isActive = default_isActive pf,
                 product_createdAt = clock d\<rparr>;
          imgs = map (\<lambda>(k, i). \<lparr>image_id = cuid pf k,
                                  image_src = data_src i,
                                  image_alt = data_alt i,
                                  image_productId = pid\<rparr>)
                   (enumerate (next_id d + 1) (create_images dat));
          vars = map (\<lambda>(k, v). \<lparr>variant_id = cuid pf k,
                                  variant_name = data_name v,
                                  variant_imageSrc = data_imageSrc v,
                                  variant_type = data_type v,
                                  variant_productId = pid\<rparr>)
                   (enumerate (next_id d + 1 + length imgs) (create_variants dat))
      in Inr (d\<lparr>products := products d @ [row],
                images := images d @ imgs,
                variants := variants d @ vars,
                next_id := next_id d + 1 + length imgs + length vars\<rparr>))"

text \<open>
  \<^verbatim>\<open>variant.create\<close> with a \<open>productId\<close>: the product has to exist (the variant
  belongs to exactly one product). \<^verbatim>\<open>variant.update\<close> by id: the row has to exist.
\<close>

definition variant_create ::
  "'n platform \<Rightarrow> 'n db \<Rightarrow> string \<Rightarrow> string \<Rightarrow> ident \<Rightarrow> string \<Rightarrow> prisma_error + 'n db" where
  "variant_create pf d nm isrc pid ty =
     (case product_findUnique d pid of
        None \<Rightarrow> Inl ForeignKeyViolation
      | Some _ \<Rightarrow>
          Inr (d\<lparr>variants := variants d @
                   [\<lparr>variant_id = cuid pf (next_id d),
                     variant_name = nm,
                     variant_imageSrc = isrc,
                     variant_type = ty,
                     variant_productId = pid\<rparr>],
                 next_id := next_id d + 1\<rparr>))"

definition variant_update :: "'n db \<Rightarrow> ident \<Rightarrow> string \<Rightarrow> string \<Rightarrow> prisma_error + 'n db" where
  "variant_update d vid nm isrc =
     (case find (\<lambda>v. variant_id v = vid) (variants d) of
        None \<Rightarrow> Inl RecordNotFound
      | Some _ \<Rightarrow>
          Inr (d\<lparr>variants :=
                   map (\<lambda>v. if variant_id v = vid
                             then v\<lparr>variant_name := nm, variant_imageSrc := isrc\<rparr>
                             else v)
                     (variants d)\<rparr>))"

definition settings_findUnique :: "'n db \<Rightarrow> string \<Rightarrow> prisma_error + settings option" where
  "settings_findUnique d nm = Inr (find (\<lambda>s. settings_name s = nm) (settings_table d))"

section \<open>The procedures of the product router\<close>

text \<open>
  A mutation returns an error, or its return value with the store after it. A query
  returns its value only.
\<close>

subsection \<open>\<^verbatim>\<open>getActiveProducts\<close> and \<^verbatim>\<open>getActiveProductsByCategory\<close>\<close>

definition getActiveProducts :: "'n db \<Rightarrow> 'n product_included list" where
  "getActiveProducts d = product_findMany_included d (\<lambda>p. product_isActive p)"

definition getActiveProductsByCategory :: "'n db \<Rightarrow> ident \<Rightarrow> 'n product_included list" where
  "getActiveProductsByCategory d input_id =
     (if input_id = ''all''
      then product_findMany_included d (\<lambda>p. product_isActive p)
      else product_findMany_included d
             (\<lambda>p. product_isActive p \<and>
                   list_ex (\<lambda>c. category_id c = input_id) (categories_of d (product_id p))))"

subsection \<open>\<^verbatim>\<open>toggleStatus\<close> and \<^verbatim>\<open>toggleCategoryStatus\<close>\<close>

text \<open>
  The input is \<^verbatim>\<open>z.object({ id: z.string() }).nullish()\<close>: \<open>None\<close> is the null input,
  whose \<^verbatim>\<open>input?.id\<close> is undefined.
\<close>

definition toggleStatus :: "'n db \<Rightarrow> ident option \<Rightarrow> prisma_error + ('n product \<times> 'n db)" where
  "toggleStatus d input_id =
     (case product_findUniqueOrThrow d input_id of
        Inl e \<Rightarrow> Inl e
      | Inr product \<Rightarrow>
          (if product_isActive product
           then (case product_update d input_id (\<lambda>p. p\<lparr>product_isActive := False\<rparr>) of
                   Inl e \<Rightarrow> Inl e
                 | Inr d' \<Rightarrow> Inr (product, d'))
           else (case product_update d input_id (\<lambda>p. p\<lparr>product_isActive := True\<rparr>) of
                   Inl e \<Rightarrow> Inl e
                 | Inr d' \<Rightarrow> Inr (product, d'))))"

definition toggleCategoryStatus :: "'n db \<Rightarrow> ident option \<Rightarrow> prisma_error + (category \<times> 'n db)" where
  "toggleCategoryStatus d input_id =
     (case category_findUniqueOrThrow d input_id of
        Inl e \<Rightarrow> Inl e
      | Inr category \<Rightarrow>
          (if category_isActive category
           then (case category_update d input_id (\<lambda>c. c\<lparr>category_isActive := False\<rparr>) of
                   Inl e \<Rightarrow> Inl e
                 | Inr d' \<Rightarrow> Inr (category, d'))
           else (case category_update d input_id (\<lambda>c. c\<lparr>category_isActive := True\<rparr>) of
                   Inl e \<Rightarrow> Inl e
                 | Inr d' \<Rightarrow> Inr (category, d'))))"

subsection \<open>\<^verbatim>\<open>addProduct\<close> and \<^verbatim>\<open>updateProduct\<close>\<close>

record image_input =
  src :: string

record variant_input =
  name :: string
  imageSrc :: string

record product_input =
  input_name :: string
  input_price :: string
  input_weight :: string
  input_description :: string
  input_image :: "image_input list"
  input_variant :: "variant_input list"

text \<open>
  The input parsers \<^verbatim>\<open>ProductInput\<close> and \<^verbatim>\<open>UpdateProductInput\<close> are imported from
  a module that is not part of the sources, so they are parameters here: \<open>ProductInput
  input\<close> says that the parser accepts the input. An input that it refuses ends the
  procedure before the body runs.
\<close>

definition addProduct ::
  "'n platform \<Rightarrow> (product_input \<Rightarrow> bool) \<Rightarrow> 'n db \<Rightarrow> product_input
     \<Rightarrow> prisma_error + (unit \<times> 'n db)" where
  "addProduct pf ProductInput d input =
     (if \<not> ProductInput input then Inl BadRequest
      else
        (case product_create pf d
                \<lparr>create_name = input_name input,
                 create_price = parseFloat pf (input_price input),
                 create_weight = parseFloat pf (input_weight input),
                 create_description = input_description input,
                 create_images =
                   map (\<lambda>image. \<lparr>data_src = src image, data_alt = input_name input\<rparr>)
                     (input_image input),
                 create_variants =
                   map (\<lambda>variant. \<lparr>data_name = name variant,
                                    data_imageSrc = imageSrc variant,
                                    data_type = ''color''\<rparr>)
                     (input_variant input)\<rparr> of
           Inl e \<Rightarrow> Inl e
         | Inr d' \<Rightarrow> Inr ((), d')))"

record update_product_input =
  update_id :: ident
  update_name :: string
  update_price :: string
  update_weight :: string
  update_description :: string

definition updateProduct ::
  "'n platform \<Rightarrow> (update_product_input \<Rightarrow> bool) \<Rightarrow> 'n db \<Rightarrow> update_product_input
     \<Rightarrow> prisma_error + (unit \<times> 'n db)" where
  "updateProduct pf UpdateProductInput d input =
     (if \<not> UpdateProductInput input then Inl BadRequest
      else
        (case product_update_scalars pf d (update_id input)
                (update_name input)
                (parseFloat pf (update_price input))
                (parseFloat pf (update_weight input))
                (update_description input) of
           Inl e \<Rightarrow> Inl e
         | Inr d' \<Rightarrow> Inr ((), d')))"

subsection \<open>\<^verbatim>\<open>attachProductToCategory\<close>\<close>

text \<open>
  Two calls of the client, one after the other, with no transaction around them.
\<close>

definition attachProductToCategory ::
  "'n db \<Rightarrow> ident \<Rightarrow> ident \<Rightarrow> prisma_error + (unit \<times> 'n db)" where
  "attachProductToCategory d productId categoryId =
     (case product_update_categories_set_empty d productId of
        Inl e \<Rightarrow> Inl e
      | Inr d1 \<Rightarrow>
          (case product_update_categories_connect d1 productId categoryId of
             Inl e \<Rightarrow> Inl e
           | Inr d2 \<Rightarrow> Inr ((), d2)))"

subsection \<open>\<^verbatim>\<open>addVariant\<close>\<close>

record add_variant_entry =
  entry_id :: ident
  entry_name :: string
  entry_imageSrc :: string
  entry_add :: bool
  entry_productId :: ident

text \<open>
  The input parser of the procedure: every entry of the batch needs a name and an image
  of at least one character (\<^verbatim>\<open>z.string().min(1)\<close>).
\<close>

definition addVariant_input :: "add_variant_entry list \<Rightarrow> bool" where
  "addVariant_input entries \<longleftrightarrow>
     list_all (\<lambda>variant. 1 \<le> length (entry_name variant) \<and>
                          1 \<le> length (entry_imageSrc variant)) entries"

text \<open>The body of the callback given to \<^verbatim>\<open>forEach\<close>.\<close>

definition addVariant_entry :: "'n platform \<Rightarrow> 'n db \<Rightarrow> add_variant_entry \<Rightarrow> prisma_error + 'n db" where
  "addVariant_entry pf d variant =
     (if entry_add variant
      then variant_create pf d (entry_name variant) (entry_imageSrc variant)
             (entry_productId variant) ''color''
      else variant_update d (entry_id variant) (entry_name variant) (entry_imageSrc variant))"

text \<open>
  \<^verbatim>\<open>forEach\<close> with an \<^verbatim>\<open>async\<close> callback: every callback is started, none is
  awaited, and a callback that rejects is seen neither by the others nor by the caller.
  Each callback makes one call of the client; the model runs the calls in the order
  of the list, and a failed call leaves the store as it was.
\<close>

fun forEach_async :: "('s \<Rightarrow> 'a \<Rightarrow> prisma_error + 's) \<Rightarrow> 's \<Rightarrow> 'a list \<Rightarrow> 's" where
  "forEach_async f d [] = d"
| "forEach_async f d (x # xs) =
     forEach_async f (case f d x of Inl e \<Rightarrow> d | Inr d' \<Rightarrow> d') xs"

definition addVariant ::
  "'n platform \<Rightarrow> 'n db \<Rightarrow> add_variant_entry list \<Rightarrow> prisma_error + (unit \<times> 'n db)" where
  "addVariant pf d entries =
     (if \<not> addVariant_input entries then Inl BadRequest
      else Inr ((), forEach_async (addVariant_entry pf) d entries))"

subsection \<open>\<^verbatim>\<open>getBannerText\<close>\<close>

text \<open>
  The lookup of the client is a parameter, so that a lookup that fails (a store that
  cannot be reached, say) is an input like any other: \<open>findUnique nm\<close> is the outcome
  of \<^verbatim>\<open>ctx.prisma.settings.findUnique({ where: { name: nm } })\<close>. The \<^verbatim>\<open>try\<close>
  block returns the row, the \<^verbatim>\<open>catch\<close> block returns null.
\<close>

definition getBannerText ::
  "(string \<Rightarrow> prisma_error + settings option) \<Rightarrow> prisma_error + settings option" where
  "getBannerText findUnique =
     (case findUnique ''banner'' of
        Inr bannerText \<Rightarrow> Inr bannerText
      | Inl e \<Rightarrow> Inr None)"

section \<open>The product creation form\<close>

text \<open>
  The component \<^verbatim>\<open>AddProduct\<close> keeps the values of its form in a form library
  (\<^verbatim>\<open>useForm\<close>) and the previews of the chosen files in component state
  (\<^verbatim>\<open>imagePreviews\<close>). A file is a value of a type parameter \<open>'f\<close>. A field that
  JavaScript leaves \<^verbatim>\<open>undefined\<close> is \<open>None\<close>: a row of the variant array can be
  a hole, and a row written by path can lack its name.
\<close>

record variant_field =
  field_name :: "string option"
  field_imageSrc :: "string option"

record 'f form =
  form_name :: string
  form_price :: string
  form_weight :: string
  form_description :: string
  form_image :: "image_input list"
  form_variant :: "variant_field option list"
  imagePreviews :: "'f list option"

definition defaultValues :: "'f form" where
  "defaultValues =
     \<lparr>form_name = [], form_price = [], form_weight = [], form_description = [],
      form_image = [\<lparr>src = []\<rparr>],
      form_variant = [Some \<lparr>field_name = Some [], field_imageSrc = Some []\<rparr>],
      imagePreviews = None\<rparr>"

subsection \<open>The rewrite of the storage host\<close>

definition s3_host :: string where
  "s3_host = ''https://hustlermy-dev.s3.ap-southeast-1.amazonaws.com''"

definition cloudfront_host :: string where
  "cloudfront_host = ''https://d1sah57fmj9klu.cloudfront.net''"

text \<open>
  \<^verbatim>\<open>s.replace(pat, rep)\<close> with a string pattern: the first occurrence of \<open>pat\<close> in
  \<open>s\<close> is replaced, and \<open>s\<close> is returned as it is when there is none. (The
  replacement used here has no \<^verbatim>\<open>$\<close>, so it is taken literally.)
\<close>

fun replace :: "string \<Rightarrow> string \<Rightarrow> string \<Rightarrow> string" where
  "replace pat rep [] = (if pat = [] then rep else [])"
| "replace pat rep (c # cs) =
     (if prefix pat (c # cs) then rep @ drop (length pat) (c # cs)
      else c # replace pat rep cs)"

definition cloudFrontUrl :: "string \<Rightarrow> string" where
  "cloudFrontUrl url = replace s3_host cloudfront_host url"

subsection \<open>The handlers\<close>

text \<open>
  \<open>uploadToS3 file\<close> is the outcome of the awaited upload: \<open>Some url\<close>, or \<open>None\<close>
  when the upload is rejected. A handler whose upload is rejected stops there, so
  the form stays as it was. \<open>files\<close> is \<^verbatim>\<open>e.target.files\<close>: \<open>None\<close> for null.
\<close>

text \<open>The loop of \<^verbatim>\<open>onProductImageChange\<close> over the chosen files.\<close>

fun upload_each ::
  "('f \<Rightarrow> string option) \<Rightarrow> 'f list \<Rightarrow> 'f list \<times> string list \<Rightarrow> ('f list \<times> string list) option" where
  "upload_each uploadToS3 [] (previews, urls) = Some (previews, urls)"
| "upload_each uploadToS3 (element # rest) (previews, urls) =
     (case uploadToS3 element of
        None \<Rightarrow> None
      | Some url \<Rightarrow> upload_each uploadToS3 rest (previews @ [element], urls @ [cloudFrontUrl url]))"

definition onProductImageChange ::
  "('f \<Rightarrow> string option) \<Rightarrow> 'f list option \<Rightarrow> 'f form \<Rightarrow> 'f form" where
  "onProductImageChange uploadToS3 files st =
     (case files of
        None \<Rightarrow> st
      | Some fs \<Rightarrow>
          (case upload_each uploadToS3 fs ([], []) of
             None \<Rightarrow> st
           | Some (previews, urls) \<Rightarrow>
               st\<lparr>imagePreviews := Some previews,
                  form_image := map (\<lambda>url. \<lparr>src = url\<rparr>) urls\<rparr>))"

text \<open>
  \<^verbatim>\<open>handleAddMoreImages\<close> reads \<^verbatim>\<open>e.target.files[0]\<close> only. With an empty
  selection that file is undefined and its upload is rejected. The previews are spread
  after the form value is written: when they are still undefined the spread throws and
  the previews stay as they were.
\<close>

definition handleAddMoreImages ::
  "('f \<Rightarrow> string option) \<Rightarrow> 'f list option \<Rightarrow> 'f form \<Rightarrow> 'f form" where
  "handleAddMoreImages uploadToS3 files st =
     (case files of
        None \<Rightarrow> st
      | Some [] \<Rightarrow> st
      | Some (file # _) \<Rightarrow>
          (case uploadToS3 file of
             None \<Rightarrow> st
           | Some url \<Rightarrow>
               (let st1 = st\<lparr>form_image := form_image st @ [\<lparr>src = cloudFrontUrl url\<rparr>]\<rparr>
                in case imagePreviews st1 of
                     None \<Rightarrow> st1
                   | Some previews \<Rightarrow> st1\<lparr>imagePreviews := Some (previews @ [file])\<rparr>)))"

text \<open>
  \<^verbatim>\<open>setValue(`variant.${index}.imageSrc`, v)\<close> and the same for the name: a row in
  range keeps its other field; an index past the end extends the array with holes and
  a row that has the written field only.
\<close>

definition set_variant_imageSrc :: "nat \<Rightarrow> string \<Rightarrow> variant_field option list \<Rightarrow> variant_field option list" where
  "set_variant_imageSrc index v rows =
     (if index < length rows
      then rows[index := (case rows ! index of
                            None \<Rightarrow> Some \<lparr>field_name = None, field_imageSrc = Some v\<rparr>
                          | Some r \<Rightarrow> Some (r\<lparr>field_imageSrc := Some v\<rparr>))]
      else rows @ replicate (index - length rows) None
             @ [Some \<lparr>field_name = None, field_imageSrc = Some v\<rparr>])"

definition set_variant_name :: "nat \<Rightarrow> string \<Rightarrow> variant_field option list \<Rightarrow> variant_field option list" where
  "set_variant_name index v rows =
     (if index < length rows
      then rows[index := (case rows ! index of
                            None \<Rightarrow> Some \<lparr>field_name = Some v, field_imageSrc = None\<rparr>
                          | Some r \<Rightarrow> Some (r\<lparr>field_name := Some v\<rparr>))]
      else rows @ replicate (index - length rows) None
             @ [Some \<lparr>field_name = Some v, field_imageSrc = None\<rparr>])"

definition onVariantImageChange ::
  "('f \<Rightarrow> string option) \<Rightarrow> 'f list option \<Rightarrow> nat \<Rightarrow> 'f form \<Rightarrow> 'f form" where
  "onVariantImageChange uploadToS3 files index st =
     (case files of
        None \<Rightarrow> st
      | Some [] \<Rightarrow> st
      | Some (file # _) \<Rightarrow>
          (case uploadToS3 file of
             None \<Rightarrow> st
           | Some url \<Rightarrow>
               st\<lparr>form_variant := set_variant_imageSrc index (cloudFrontUrl url) (form_variant st)\<rparr>))"

subsection \<open>What the operator can do to the form\<close>

text \<open>
  The events of the dialog: the three file pickers, the buttons that append a blank
  variant row and remove a row, and typing into the registered inputs (the description
  comes from the editor through \<^verbatim>\<open>setValue('description', description)\<close>).
\<close>

datatype 'f event =
  ProductImageChange "'f list option"
  | AddMoreImages "'f list option"
  | VariantImageChange "'f list option" nat
  | AppendVariant
  | RemoveVariant nat
  | TypeName string
  | TypePrice string
  | TypeWeight string
  | SetDescription string
  | TypeVariantName nat string

fun handle :: "('f \<Rightarrow> string option) \<Rightarrow> 'f form \<Rightarrow> 'f event \<Rightarrow> 'f form" where
  "handle uploadToS3 st (ProductImageChange files) = onProductImageChange uploadToS3 files st"
| "handle uploadToS3 st (AddMoreImages files) = handleAddMoreImages uploadToS3 files st"
| "handle uploadToS3 st (VariantImageChange files index) =
     onVariantImageChange uploadToS3 files index st"
| "handle uploadToS3 st AppendVariant =
     st\<lparr>form_variant := form_variant st
           @ [Some \<lparr>field_name = Some [], field_imageSrc = Some []\<rparr>]\<rparr>"
| "handle uploadToS3 st (RemoveVariant index) =
     st\<lparr>form_variant := take index (form_variant st) @ drop (Suc index) (form_variant st)\<rparr>"
| "handle uploadToS3 st (TypeName v) = st\<lparr>form_name := v\<rparr>"
| "handle uploadToS3 st (TypePrice v) = st\<lparr>form_price := v\<rparr>"
| "handle uploadToS3 st (TypeWeight v) = st\<lparr>form_weight := v\<rparr>"
| "handle uploadToS3 st (SetDescription v) = st\<lparr>form_description := v\<rparr>"
| "handle uploadToS3 st (TypeVariantName index v) =
     st\<lparr>form_variant := set_variant_name index v (form_variant st)\<rparr>"

fun run :: "('f \<Rightarrow> string option) \<Rightarrow> 'f form \<Rightarrow> 'f event list \<Rightarrow> 'f form" where
  "run uploadToS3 st [] = st"
| "run uploadToS3 st (ev # evs) = run uploadToS3 (handle uploadToS3 st ev) evs"

subsection \<open>Validation and submission\<close>

text \<open>
  The schema of the form (the constant \<^verbatim>\<open>schema\<close>): string lengths between a
  minimum of 1 and a maximum. \<open>schema_parse\<close> gives the payload that
  \<^verbatim>\<open>handleSubmit\<close> passes to \<^verbatim>\<open>onSubmit\<close>, which sends it to \<^verbatim>\<open>addProduct\<close>;
  \<open>None\<close> when the form is not valid and nothing is submitted.
\<close>

definition string_min_max :: "nat \<Rightarrow> nat \<Rightarrow> string \<Rightarrow> bool" where
  "string_min_max lo hi v \<longleftrightarrow> lo \<le> length v \<and> length v \<le> hi"

fun parse_variants :: "variant_field option list \<Rightarrow> variant_input list option" where
  "parse_variants [] = Some []"
| "parse_variants (None # rows) = None"
| "parse_variants (Some r # rows) =
     (case (field_name r, field_imageSrc r) of
        (Some n, Some i) \<Rightarrow>
          (if string_min_max 1 100 n \<and> string_min_max 1 10000 i
           then (case parse_variants rows of
                   None \<Rightarrow> None
                 | Some vs \<Rightarrow> Some (\<lparr>name = n, imageSrc = i\<rparr> # vs))
           else None)
      | _ \<Rightarrow> None)"

definition schema_parse :: "'f form \<Rightarrow> product_input option" where
  "schema_parse st =
     (if string_min_max 1 100 (form_name st) \<and>
         string_min_max 1 100 (form_price st) \<and>
         string_min_max 1 100 (form_weight st) \<and>
         1 \<le> length (form_description st) \<and>
         list_all (\<lambda>i. string_min_max 1 1000 (src i)) (form_image st)
      then (case parse_variants (form_variant st) of
              None \<Rightarrow> None
            | Some vs \<Rightarrow>
                Some \<lparr>input_name = form_name st,
                      input_price = form_price st,
                      input_weight = form_weight st,
                      input_description = form_description st,
                      input_image = form_image st,
                      input_variant = vs\<rparr>)
      else None)"

subsection \<open>The invariant of the form's image fields\<close>

text \<open>
  An image field of the form is either still empty or holds a URL that starts with the
  CDN host. A hole of the variant array and a row without an image are harmless: the
  schema rejects them.
\<close>

definition url_ok :: "string \<Rightarrow> bool" where
  "url_ok s \<longleftrightarrow> s = [] \<or> prefix cloudfront_host s"

definition images_ok :: "image_input list \<Rightarrow> bool" where
  "images_ok imgs \<longleftrightarrow> list_all (\<lambda>i. url_ok (src i)) imgs"

definition row_ok :: "variant_field option \<Rightarrow> bool" where
  "row_ok r \<longleftrightarrow>
     (case r of
        None \<Rightarrow> True
      | Some row \<Rightarrow> (case field_imageSrc row of None \<Rightarrow> True | Some s \<Rightarrow> url_ok s))"

definition variants_ok :: "variant_field option list \<Rightarrow> bool" where
  "variants_ok rows \<longleftrightarrow> list_all row_ok rows"

definition form_inv :: "'f form \<Rightarrow> bool" where
  "form_inv st \<longleftrightarrow> images_ok (form_image st) \<and> variants_ok (form_variant st)"

section \<open>A concrete shop\<close>

text \<open>
  One product with an image and a variant, two categories and a banner. A number is
  an integer or \<open>None\<close>, which stands for \<^verbatim>\<open>NaN\<close>; \<open>parseFloat\<close> is given on the
  two numeric strings that are used and is \<^verbatim>\<open>NaN\<close> elsewhere. The input parsers ask
  for a name of at least one character.
\<close>

definition example_platform :: "int option platform" where
  "example_platform =
     \<lparr>parseFloat = (\<lambda>s. if s = ''12'' then Some 12 else if s = ''3'' then Some 3 else None),
      isFinite = (\<lambda>n. n \<noteq> None),
      cuid = (\<lambda>k. CHR ''c'' # replicate k (CHR ''0'')),
      default_isActive = True\<rparr>"

definition example_ProductInput :: "product_input \<Rightarrow> bool" where
  "example_ProductInput input \<longleftrightarrow> 1 \<le> length (input_name input)"

definition example_UpdateProductInput :: "update_product_input \<Rightarrow> bool" where
  "example_UpdateProductInput input \<longleftrightarrow> 1 \<le> length (update_name input)"

definition example_product :: "int option product" where
  "example_product =
     \<lparr>product_id = ''p1'', product_name = ''Mug'', product_price = Some 7,
      product_weight = Some 1, product_description = ''Stoneware'', product_isActive = True,
      product_createdAt = 100\<rparr>"

definition example_tops :: category where
  "example_tops = \<lparr>category_id = ''kA'', category_name = ''Kitchen'', category_isActive = True\<rparr>"

definition example_sale :: category where
  "example_sale = \<lparr>category_id = ''kB'', category_name = ''Sale'', category_isActive = False\<rparr>"

definition example_banner :: settings where
  "example_banner = \<lparr>settings_name = ''banner'', settings_value = ''Free shipping''\<rparr>"

definition example_db :: "int option db" where
  "example_db =
     \<lparr>products = [example_product],
      images = [\<lparr>image_id = ''i1'', image_src = ''mug.png'', image_alt = ''Mug'',
                 image_productId = ''p1''\<rparr>],
      variants = [\<lparr>variant_id = ''v1'', variant_name = ''White'', variant_imageSrc = ''white.png'',
                   variant_type = ''color'', variant_productId = ''p1''\<rparr>],
      categories = [example_tops, example_sale],
      product_categories = [(''p1'', ''kA'')],
      settings_table = [example_banner],
      next_id = 5,
      clock = 200\<rparr>"

definition example_update_input :: update_product_input where
  "example_update_input =
     \<lparr>update_id = ''p1'', update_name = ''Cup'', update_price = ''12'', update_weight = ''3'',
      update_description = ''Porcelain''\<rparr>"

text \<open>The same update with a price that is no number.\<close>

definition example_bad_price :: update_product_input where
  "example_bad_price = example_update_input\<lparr>update_price := ''abc''\<rparr>"

text \<open>A batch for \<^verbatim>\<open>addVariant\<close>: an update of a variant that is not there, and a create.\<close>

definition example_bad_update :: add_variant_entry where
  "example_bad_update =
     \<lparr>entry_id = ''v9'', entry_name = ''Blue'', entry_imageSrc = ''blue.png'',
      entry_add = False, entry_productId = ''p1''\<rparr>"

definition example_create :: add_variant_entry where
  "example_create =
     \<lparr>entry_id = [], entry_name = ''Green'', entry_imageSrc = ''green.png'',
      entry_add = True, entry_productId = ''p1''\<rparr>"

text \<open>
  A session at the form: every upload returns a URL under the storage host; the operator
  picks two files, adds a third, gives the variant an image and fills in the texts.
\<close>

definition example_upload :: "string \<Rightarrow> string option" where
  "example_upload f = Some (s3_host @ ''/next-s3-uploads/'' @ f)"

definition example_events :: "string event list" where
  "example_events =
     [ProductImageChange (Some [''front.png'', ''back.png'']),
      AddMoreImages (Some [''side.png'']),
      VariantImageChange (Some [''red.png'']) 0,
      TypeVariantName 0 ''Red'',
      TypeName ''Shirt'',
      TypePrice ''12'',
      TypeWeight ''3'',
      SetDescription ''Cotton'']"

definition example_payload :: product_input where
  "example_payload =
     \<lparr>input_name = ''Shirt'', input_price = ''12'', input_weight = ''3'',
      input_description = ''Cotton'',
      input_image = [\<lparr>src = cloudfront_host @ ''/next-s3-uploads/front.png''\<rparr>,
                     \<lparr>src = cloudfront_host @ ''/next-s3-uploads/back.png''\<rparr>,
                     \<lparr>src = cloudfront_host @ ''/next-s3-uploads/side.png''\<rparr>],
      input_variant = [\<lparr>name = ''Red'',
                        imageSrc = cloudfront_host @ ''/next-s3-uploads/red.png''\<rparr>]\<rparr>"

section \<open>Properties of the product router\<close>

subsection \<open>Lookups after an update\<close>

lemma find_map_same_id:
  assumes "\<And>p. key (f p) = key p"
  shows "find (\<lambda>p. key p = k) (map (\<lambda>p. if key p = k then f p else p) xs)
           = map_option f (find (\<lambda>p. key p = k) xs)"
  using assms by (induction xs) auto

lemma find_map_other_id:
  assumes "\<And>p. key (f p) = key p" and "q \<noteq> k"
  shows "find (\<lambda>p. key p = q) (map (\<lambda>p. if key p = k then f p else p) xs)
           = find (\<lambda>p. key p = q) xs"
  using assms by (induction xs) auto

lemma filter_all: "(\<forall>x\<in>set xs. P x) \<Longrightarrow> filter P xs = xs"
  by (induction xs) auto

lemma filter_none: "(\<forall>x\<in>set xs. \<not> P x) \<Longrightarrow> filter P xs = []"
  by (induction xs) auto

lemma example_product_found: "product_findUnique example_db ''p1'' = Some example_product"
  by (simp add: product_findUnique_def example_db_def example_product_def)

lemma example_tops_found: "category_findUnique example_db ''kA'' = Some example_tops"
  by (simp add: category_findUnique_def example_db_def example_tops_def)

lemma example_sale_found: "category_findUnique example_db ''kB'' = Some example_sale"
  by (simp add: category_findUnique_def example_db_def example_tops_def example_sale_def)

subsection \<open>Listing active products\<close>

text \<open>
  C3. For every store, \<^verbatim>\<open>getActiveProductsByCategory\<close> with the id \<open>all\<close> returns
  what \<^verbatim>\<open>getActiveProducts\<close> returns: the same products, with the same included
  images and categories, in the same order.
\<close>

theorem getActiveProductsByCategory_all:
  "getActiveProductsByCategory d ''all'' = getActiveProducts d"
  by (simp add: getActiveProductsByCategory_def getActiveProducts_def)

subsection \<open>Toggling the status\<close>

lemma toggleStatus_step:
  assumes "product_findUnique d pid = Some p"
  shows "toggleStatus d (Some pid) =
           Inr (p, d\<lparr>products := map (\<lambda>q. if product_id q = pid
                                          then q\<lparr>product_isActive := \<not> product_isActive p\<rparr>
                                          else q) (products d)\<rparr>)"
  using assms
  by (simp add: toggleStatus_def product_findUniqueOrThrow_def product_update_def)

lemma product_findUnique_toggled:
  assumes "product_findUnique d pid = Some p"
  shows "product_findUnique
           (d\<lparr>products := map (\<lambda>q. if product_id q = pid
                                    then q\<lparr>product_isActive := b\<rparr>
                                    else q) (products d)\<rparr>) pid
         = Some (p\<lparr>product_isActive := b\<rparr>)"
proof -
  have "find (\<lambda>q. product_id q = pid)
          (map (\<lambda>q. if product_id q = pid then q\<lparr>product_isActive := b\<rparr> else q) (products d))
        = map_option (\<lambda>q. q\<lparr>product_isActive := b\<rparr>) (find (\<lambda>q. product_id q = pid) (products d))"
    by (rule find_map_same_id) simp
  with assms show ?thesis
    by (simp add: product_findUnique_def)
qed

lemma toggleCategoryStatus_step:
  assumes "category_findUnique d cid = Some c"
  shows "toggleCategoryStatus d (Some cid) =
           Inr (c, d\<lparr>categories := map (\<lambda>q. if category_id q = cid
                                          then q\<lparr>category_isActive := \<not> category_isActive c\<rparr>
                                          else q) (categories d)\<rparr>)"
  using assms
  by (simp add: toggleCategoryStatus_def category_findUniqueOrThrow_def category_update_def)

lemma category_findUnique_toggled:
  assumes "category_findUnique d cid = Some c"
  shows "category_findUnique
           (d\<lparr>categories := map (\<lambda>q. if category_id q = cid
                                    then q\<lparr>category_isActive := b\<rparr>
                                    else q) (categories d)\<rparr>) cid
         = Some (c\<lparr>category_isActive := b\<rparr>)"
proof -
  have "find (\<lambda>q. category_id q = cid)
          (map (\<lambda>q. if category_id q = cid then q\<lparr>category_isActive := b\<rparr> else q) (categories d))
        = map_option (\<lambda>q. q\<lparr>category_isActive := b\<rparr>) (find (\<lambda>q. category_id q = cid) (categories d))"
    by (rule find_map_same_id) simp
  with assms show ?thesis
    by (simp add: category_findUnique_def)
qed

text \<open>
  C4. For a product id that is in the store, two calls of \<^verbatim>\<open>toggleStatus\<close> in a row
  both succeed; after the first the product's \<open>isActive\<close> is the negation of the
  original value, after the second it is the original value again.
\<close>

theorem toggleStatus_twice:
  assumes "product_findUnique d pid = Some p"
  shows "\<exists>r1 d1 r2 d2.
           toggleStatus d (Some pid) = Inr (r1, d1) \<and>
           map_option product_isActive (product_findUnique d1 pid) = Some (\<not> product_isActive p) \<and>
           toggleStatus d1 (Some pid) = Inr (r2, d2) \<and>
           map_option product_isActive (product_findUnique d2 pid) = Some (product_isActive p)"
proof -
  define d1 where "d1 = d\<lparr>products := map (\<lambda>q. if product_id q = pid
                                          then q\<lparr>product_isActive := \<not> product_isActive p\<rparr>
                                          else q) (products d)\<rparr>"
  define p1 where "p1 = p\<lparr>product_isActive := \<not> product_isActive p\<rparr>"
  define d2 where "d2 = d1\<lparr>products := map (\<lambda>q. if product_id q = pid
                                          then q\<lparr>product_isActive := \<not> product_isActive p1\<rparr>
                                          else q) (products d1)\<rparr>"
  have t1: "toggleStatus d (Some pid) = Inr (p, d1)"
    unfolding d1_def by (rule toggleStatus_step [OF assms])
  have f1: "product_findUnique d1 pid = Some p1"
    unfolding d1_def p1_def by (rule product_findUnique_toggled [OF assms])
  have t2: "toggleStatus d1 (Some pid) = Inr (p1, d2)"
    unfolding d2_def by (rule toggleStatus_step [OF f1])
  have f2: "product_findUnique d2 pid = Some (p1\<lparr>product_isActive := \<not> product_isActive p1\<rparr>)"
    unfolding d2_def by (rule product_findUnique_toggled [OF f1])
  show ?thesis
    using t1 f1 t2 f2 by (simp add: p1_def)
qed

theorem toggleStatus_twice_witness:
  "product_findUnique example_db ''p1'' = Some example_product \<and>
   (\<exists>r1 d1 r2 d2.
      toggleStatus example_db (Some ''p1'') = Inr (r1, d1) \<and>
      map_option product_isActive (product_findUnique d1 ''p1'') = Some False \<and>
      toggleStatus d1 (Some ''p1'') = Inr (r2, d2) \<and>
      map_option product_isActive (product_findUnique d2 ''p1'') = Some True)"
proof -
  have a: "product_isActive example_product = True"
    by (simp add: example_product_def)
  show ?thesis
    using example_product_found toggleStatus_twice [OF example_product_found]
    unfolding a by simp
qed

text \<open>
  C10. For an id that is in the store, \<^verbatim>\<open>toggleStatus\<close> (and \<^verbatim>\<open>toggleCategoryStatus\<close>
  for a category) returns the record as it was fetched before the flip: the returned
  \<open>isActive\<close> is the old value, while the store holds the new one.
\<close>

theorem toggle_returns_old:
  "(product_findUnique d pid = Some p \<longrightarrow>
      (\<exists>d'. toggleStatus d (Some pid) = Inr (p, d') \<and>
            map_option product_isActive (product_findUnique d' pid) = Some (\<not> product_isActive p)))
   \<and>
   (category_findUnique d cid = Some c \<longrightarrow>
      (\<exists>d'. toggleCategoryStatus d (Some cid) = Inr (c, d') \<and>
            map_option category_isActive (category_findUnique d' cid) = Some (\<not> category_isActive c)))"
proof (intro conjI impI)
  assume a: "product_findUnique d pid = Some p"
  show "\<exists>d'. toggleStatus d (Some pid) = Inr (p, d') \<and>
            map_option product_isActive (product_findUnique d' pid) = Some (\<not> product_isActive p)"
    using toggleStatus_step [OF a] product_findUnique_toggled [OF a, of "\<not> product_isActive p"]
    by simp
next
  assume a: "category_findUnique d cid = Some c"
  show "\<exists>d'. toggleCategoryStatus d (Some cid) = Inr (c, d') \<and>
            map_option category_isActive (category_findUnique d' cid) = Some (\<not> category_isActive c)"
    using toggleCategoryStatus_step [OF a] category_findUnique_toggled [OF a, of "\<not> category_isActive c"]
    by simp
qed

theorem toggle_returns_old_witness:
  "product_findUnique example_db ''p1'' = Some example_product \<and>
   product_isActive example_product \<and>
   (\<exists>d'. toggleStatus example_db (Some ''p1'') = Inr (example_product, d') \<and>
         map_option product_isActive (product_findUnique d' ''p1'') = Some False) \<and>
   category_findUnique example_db ''kB'' = Some example_sale \<and>
   \<not> category_isActive example_sale \<and>
   (\<exists>d'. toggleCategoryStatus example_db (Some ''kB'') = Inr (example_sale, d') \<and>
         map_option category_isActive (category_findUnique d' ''kB'') = Some True)"
proof -
  have a: "product_isActive example_product = True"
    by (simp add: example_product_def)
  have b: "category_isActive example_sale = False"
    by (simp add: example_sale_def)
  show ?thesis
    using example_product_found example_sale_found
      toggle_returns_old [of example_db "''p1''" example_product "''kB''" example_sale]
    unfolding a b by simp
qed

subsection \<open>Updating a product\<close>

lemma product_update_scalars_accepted:
  assumes "isFinite pf pr" and "isFinite pf wt"
  shows "product_update_scalars pf d pid nm pr wt ds =
           product_update d (Some pid)
             (\<lambda>p. p\<lparr>product_name := nm, product_price := pr,
                     product_weight := wt, product_description := ds\<rparr>)"
  using assms by (simp add: product_update_scalars_def)

lemma product_update_scalars_refused:
  assumes "\<not> (isFinite pf pr \<and> isFinite pf wt)"
  shows "product_update_scalars pf d pid nm pr wt ds = Inl ValidationError"
  using assms by (auto simp add: product_update_scalars_def)

text \<open>
  C5. Take a product that is in the store. When the input parser accepts the input and
  the price and weight strings parse to finite numbers, \<^verbatim>\<open>updateProduct\<close> succeeds
  and rewrites the name, the price, the weight (both parsed from the input strings) and
  the description of that product; its \<open>isActive\<close>, id and creation time, its images,
  variants and categories, and every other product are as before. When the parser
  refuses the input the procedure ends with a bad request, and when a parsed number is
  not finite the store refuses the update: in both cases nothing is written.
\<close>

theorem updateProduct_frame:
  assumes "product_findUnique d (update_id input) = Some p"
  shows "(UpdateProductInput input \<and>
          isFinite pf (parseFloat pf (update_price input)) \<and>
          isFinite pf (parseFloat pf (update_weight input)) \<longrightarrow>
          (\<exists>d' p'.
             updateProduct pf UpdateProductInput d input = Inr ((), d') \<and>
             product_findUnique d' (update_id input) = Some p' \<and>
             p' = p\<lparr>product_name := update_name input,
                    product_price := parseFloat pf (update_price input),
                    product_weight := parseFloat pf (update_weight input),
                    product_description := update_description input\<rparr> \<and>
             product_isActive p' = product_isActive p \<and>
             product_id p' = product_id p \<and>
             product_createdAt p' = product_createdAt p \<and>
             images d' = images d \<and>
             variants d' = variants d \<and>
             categories d' = categories d \<and>
             product_categories d' = product_categories d \<and>
             images_of d' (update_id input) = images_of d (update_id input) \<and>
             variants_of d' (update_id input) = variants_of d (update_id input) \<and>
             categories_of d' (update_id input) = categories_of d (update_id input) \<and>
             (\<forall>q. q \<noteq> update_id input \<longrightarrow> product_findUnique d' q = product_findUnique d q)))
         \<and>
         (\<not> UpdateProductInput input \<longrightarrow>
            updateProduct pf UpdateProductInput d input = Inl BadRequest)
         \<and>
         (UpdateProductInput input \<and>
          \<not> (isFinite pf (parseFloat pf (update_price input)) \<and>
              isFinite pf (parseFloat pf (update_weight input))) \<longrightarrow>
            updateProduct pf UpdateProductInput d input = Inl ValidationError)"
proof (intro conjI impI)
  assume ok: "UpdateProductInput input \<and>
          isFinite pf (parseFloat pf (update_price input)) \<and>
          isFinite pf (parseFloat pf (update_weight input))"
  let ?f = "\<lambda>p. p\<lparr>product_name := update_name input,
                  product_price := parseFloat pf (update_price input),
                  product_weight := parseFloat pf (update_weight input),
                  product_description := update_description input\<rparr>"
  let ?d' = "d\<lparr>products := map (\<lambda>p. if product_id p = update_id input then ?f p else p) (products d)\<rparr>"
  have "product_update_scalars pf d (update_id input) (update_name input)
          (parseFloat pf (update_price input)) (parseFloat pf (update_weight input))
          (update_description input) = Inr ?d'"
    using ok assms by (simp add: product_update_scalars_accepted product_update_def)
  then have u: "updateProduct pf UpdateProductInput d input = Inr ((), ?d')"
    using ok by (simp add: updateProduct_def)
  have "find (\<lambda>p. product_id p = update_id input)
          (map (\<lambda>p. if product_id p = update_id input then ?f p else p) (products d))
        = map_option ?f (find (\<lambda>p. product_id p = update_id input) (products d))"
    by (rule find_map_same_id) simp
  then have f: "product_findUnique ?d' (update_id input) = Some (?f p)"
    using assms by (simp add: product_findUnique_def)
  have o: "product_findUnique ?d' q = product_findUnique d q" if "q \<noteq> update_id input" for q
  proof -
    have "find (\<lambda>p. product_id p = q)
            (map (\<lambda>p. if product_id p = update_id input then ?f p else p) (products d))
          = find (\<lambda>p. product_id p = q) (products d)"
      by (rule find_map_other_id) (simp_all add: that)
    then show ?thesis by (simp add: product_findUnique_def)
  qed
  show "\<exists>d' p'.
             updateProduct pf UpdateProductInput d input = Inr ((), d') \<and>
             product_findUnique d' (update_id input) = Some p' \<and>
             p' = p\<lparr>product_name := update_name input,
                    product_price := parseFloat pf (update_price input),
                    product_weight := parseFloat pf (update_weight input),
                    product_description := update_description input\<rparr> \<and>
             product_isActive p' = product_isActive p \<and>
             product_id p' = product_id p \<and>
             product_createdAt p' = product_createdAt p \<and>
             images d' = images d \<and>
             variants d' = variants d \<and>
             categories d' = categories d \<and>
             product_categories d' = product_categories d \<and>
             images_of d' (update_id input) = images_of d (update_id input) \<and>
             variants_of d' (update_id input) = variants_of d (update_id input) \<and>
             categories_of d' (update_id input) = categories_of d (update_id input) \<and>
             (\<forall>q. q \<noteq> update_id input \<longrightarrow> product_findUnique d' q = product_findUnique d q)"
    using u f o by (simp add: images_of_def variants_of_def categories_of_def)
next
  assume "\<not> UpdateProductInput input"
  then show "updateProduct pf UpdateProductInput d input = Inl BadRequest"
    by (simp add: updateProduct_def)
next
  assume "UpdateProductInput input \<and>
          \<not> (isFinite pf (parseFloat pf (update_price input)) \<and>
              isFinite pf (parseFloat pf (update_weight input)))"
  then show "updateProduct pf UpdateProductInput d input = Inl ValidationError"
    by (simp add: updateProduct_def product_update_scalars_refused)
qed

theorem updateProduct_frame_witness:
  "product_findUnique example_db (update_id example_update_input) = Some example_product \<and>
   example_UpdateProductInput example_update_input \<and>
   isFinite example_platform (parseFloat example_platform (update_price example_update_input)) \<and>
   isFinite example_platform (parseFloat example_platform (update_weight example_update_input)) \<and>
   (\<exists>d' p'.
      updateProduct example_platform example_UpdateProductInput example_db example_update_input
        = Inr ((), d') \<and>
      product_findUnique d' ''p1'' = Some p' \<and>
      product_name p' = ''Cup'' \<and> product_price p' = Some 12 \<and> product_weight p' = Some 3 \<and>
      product_description p' = ''Porcelain'' \<and>
      product_isActive p' = product_isActive example_product \<and>
      images d' = images example_db \<and>
      variants d' = variants example_db \<and>
      product_categories d' = product_categories example_db \<and>
      product_findUnique d' ''p2'' = product_findUnique example_db ''p2'') \<and>
   product_findUnique example_db (update_id example_bad_price) = Some example_product \<and>
   example_UpdateProductInput example_bad_price \<and>
   \<not> isFinite example_platform (parseFloat example_platform (update_price example_bad_price)) \<and>
   updateProduct example_platform example_UpdateProductInput example_db example_bad_price
     = Inl ValidationError"
proof -
  have i: "update_id example_update_input = ''p1''"
    by (simp add: example_update_input_def)
  have h: "product_findUnique example_db (update_id example_update_input) = Some example_product"
    unfolding i by (rule example_product_found)
  have a1: "example_UpdateProductInput example_update_input"
    by (simp add: example_UpdateProductInput_def example_update_input_def)
  have a2: "isFinite example_platform (parseFloat example_platform (update_price example_update_input))"
    by (simp add: example_platform_def example_update_input_def)
  have a3: "isFinite example_platform (parseFloat example_platform (update_weight example_update_input))"
    by (simp add: example_platform_def example_update_input_def)
  from updateProduct_frame [OF h, of example_UpdateProductInput example_platform] a1 a2 a3
  obtain d' p' where
    u: "updateProduct example_platform example_UpdateProductInput example_db example_update_input
          = Inr ((), d')"
    and f: "product_findUnique d' (update_id example_update_input) = Some p'"
    and p: "p' = example_product\<lparr>product_name := update_name example_update_input,
                  product_price := parseFloat example_platform (update_price example_update_input),
                  product_weight := parseFloat example_platform (update_weight example_update_input),
                  product_description := update_description example_update_input\<rparr>"
    and r: "images d' = images example_db" "variants d' = variants example_db"
      "product_categories d' = product_categories example_db"
    and o: "\<forall>q. q \<noteq> update_id example_update_input \<longrightarrow>
              product_findUnique d' q = product_findUnique example_db q"
    by blast
  have o2: "product_findUnique d' ''p2'' = product_findUnique example_db ''p2''"
    using o unfolding i by simp
  have v: "product_name p' = ''Cup''" "product_price p' = Some 12" "product_weight p' = Some 3"
    "product_description p' = ''Porcelain''" "product_isActive p' = product_isActive example_product"
    unfolding p by (simp_all add: example_update_input_def example_platform_def)
  have ib: "update_id example_bad_price = ''p1''"
    by (simp add: example_bad_price_def example_update_input_def)
  have hb: "product_findUnique example_db (update_id example_bad_price) = Some example_product"
    unfolding ib by (rule example_product_found)
  have b1: "example_UpdateProductInput example_bad_price"
    by (simp add: example_UpdateProductInput_def example_bad_price_def example_update_input_def)
  have b2: "\<not> isFinite example_platform (parseFloat example_platform (update_price example_bad_price))"
    by (simp add: example_platform_def example_bad_price_def)
  have b3: "updateProduct example_platform example_UpdateProductInput example_db example_bad_price
     = Inl ValidationError"
    using updateProduct_frame [OF hb, of example_UpdateProductInput example_platform] b1 b2
    by blast
  show ?thesis
    by (intro conjI exI [of _ d'] exI [of _ p'] h a1 a2 a3 u f [unfolded i] v r o2 hb b1 b2 b3)
qed

subsection \<open>Attaching a product to a category\<close>

lemma product_findUnique_product_categories_update:
  "product_findUnique (d\<lparr>product_categories := pcs\<rparr>) pid = product_findUnique d pid"
  by (simp add: product_findUnique_def)

lemma category_findUnique_product_categories_update:
  "category_findUnique (d\<lparr>product_categories := pcs\<rparr>) cid = category_findUnique d cid"
  by (simp add: category_findUnique_def)

lemma attach_step:
  assumes "product_findUnique d pid = Some p" and "category_findUnique d cid = Some c"
  shows "attachProductToCategory d pid cid =
           Inr ((), d\<lparr>product_categories :=
                        filter (\<lambda>pc. fst pc \<noteq> pid) (product_categories d) @ [(pid, cid)]\<rparr>)"
  using assms
  by (auto simp add: attachProductToCategory_def product_update_categories_set_empty_def
        product_update_categories_connect_def product_findUnique_product_categories_update
        category_findUnique_product_categories_update)

lemma membership_after_attach:
  "membership (d\<lparr>product_categories :=
                  filter (\<lambda>pc. fst pc \<noteq> pid) (product_categories d) @ [(pid, cid)]\<rparr>) pid = [cid]"
proof -
  have "filter (\<lambda>pc. fst pc = pid) (filter (\<lambda>pc. fst pc \<noteq> pid) xs) = []"
    for xs :: "(ident \<times> ident) list"
    by (induction xs) auto
  then show ?thesis by (simp add: membership_def)
qed

lemma membership_other_after_attach:
  assumes "q \<noteq> pid"
  shows "membership (d\<lparr>product_categories :=
                  filter (\<lambda>pc. fst pc \<noteq> pid) (product_categories d) @ [(pid, cid)]\<rparr>) q
     = membership d q"
proof -
  have "filter (\<lambda>pc. fst pc = q) (filter (\<lambda>pc. fst pc \<noteq> pid) xs) = filter (\<lambda>pc. fst pc = q) xs"
    for xs :: "(ident \<times> ident) list"
    using assms by (induction xs) auto
  with assms show ?thesis by (simp add: membership_def)
qed

text \<open>
  C2. For a product and two categories that are in the store, whatever categories the
  product had before: attaching it to category A and then to category B succeeds both
  times, and afterwards the product's membership is B alone (A alone in between). The
  categories included with the product are then the categories with the id of B, and
  the memberships of the other products are as before.
\<close>

theorem attach_A_then_B:
  assumes "product_findUnique d pid = Some p"
    and "category_findUnique d a = Some ca"
    and "category_findUnique d b = Some cb"
  shows "\<exists>d1 d2.
           attachProductToCategory d pid a = Inr ((), d1) \<and>
           membership d1 pid = [a] \<and>
           attachProductToCategory d1 pid b = Inr ((), d2) \<and>
           membership d2 pid = [b] \<and>
           categories_of d2 pid = filter (\<lambda>c. category_id c = b) (categories d) \<and>
           (\<forall>q. q \<noteq> pid \<longrightarrow> membership d2 q = membership d q)"
proof -
  define d1 where "d1 = d\<lparr>product_categories :=
                        filter (\<lambda>pc. fst pc \<noteq> pid) (product_categories d) @ [(pid, a)]\<rparr>"
  define d2 where "d2 = d1\<lparr>product_categories :=
                        filter (\<lambda>pc. fst pc \<noteq> pid) (product_categories d1) @ [(pid, b)]\<rparr>"
  have s1: "attachProductToCategory d pid a = Inr ((), d1)"
    unfolding d1_def by (rule attach_step [OF assms(1) assms(2)])
  have p1: "product_findUnique d1 pid = Some p" and c1: "category_findUnique d1 b = Some cb"
    using assms
    by (simp_all add: d1_def product_findUnique_product_categories_update
        category_findUnique_product_categories_update)
  have s2: "attachProductToCategory d1 pid b = Inr ((), d2)"
    unfolding d2_def by (rule attach_step [OF p1 c1])
  have m1: "membership d1 pid = [a]"
    unfolding d1_def by (rule membership_after_attach)
  have m2: "membership d2 pid = [b]"
    unfolding d2_def by (rule membership_after_attach)
  have o: "membership d2 q = membership d q" if "q \<noteq> pid" for q
    using that by (simp add: d2_def d1_def membership_other_after_attach)
  have "set (map snd (filter (\<lambda>pc. fst pc = pid) (product_categories d2))) = {b}"
    using m2 by (simp add: membership_def)
  then have "(pid, x) \<in> set (product_categories d2) \<longleftrightarrow> x = b" for x
    by force
  then have c2: "categories_of d2 pid = filter (\<lambda>c. category_id c = b) (categories d)"
    by (simp add: categories_of_def d2_def d1_def)
  show ?thesis
    using s1 m1 s2 m2 c2 o by blast
qed

theorem attach_A_then_B_witness:
  "product_findUnique example_db ''p1'' = Some example_product \<and>
   category_findUnique example_db ''kA'' = Some example_tops \<and>
   category_findUnique example_db ''kB'' = Some example_sale \<and>
   membership example_db ''p1'' = [''kA''] \<and>
   (\<exists>d1 d2.
      attachProductToCategory example_db ''p1'' ''kA'' = Inr ((), d1) \<and>
      attachProductToCategory d1 ''p1'' ''kB'' = Inr ((), d2) \<and>
      membership d2 ''p1'' = [''kB''] \<and>
      categories_of d2 ''p1'' = [example_sale] \<and>
      membership d2 ''p2'' = membership example_db ''p2'')"
proof -
  have m: "membership example_db ''p1'' = [''kA'']"
    by (simp add: membership_def example_db_def)
  have f: "filter (\<lambda>c. category_id c = ''kB'') (categories example_db) = [example_sale]"
    by (simp add: example_db_def example_tops_def example_sale_def)
  from attach_A_then_B [OF example_product_found example_tops_found example_sale_found]
  obtain d1 d2 where
    s1: "attachProductToCategory example_db ''p1'' ''kA'' = Inr ((), d1)"
    and s2: "attachProductToCategory d1 ''p1'' ''kB'' = Inr ((), d2)"
    and m2: "membership d2 ''p1'' = [''kB'']"
    and c2: "categories_of d2 ''p1'' = filter (\<lambda>c. category_id c = ''kB'') (categories example_db)"
    and o: "\<forall>q. q \<noteq> ''p1'' \<longrightarrow> membership d2 q = membership example_db q"
    by blast
  have o2: "membership d2 ''p2'' = membership example_db ''p2''"
    using o by simp
  have c2': "categories_of d2 ''p1'' = [example_sale]"
    using c2 unfolding f .
  show ?thesis
    by (intro conjI exI [of _ d1] exI [of _ d2] example_product_found example_tops_found
        example_sale_found m s1 s2 m2 c2' o2)
qed

subsection \<open>Creating a product\<close>

lemma map_enumerate_proj:
  assumes "\<And>k x. g (f k x) = h x"
  shows "map g (map (\<lambda>(k, x). f k x) (enumerate n xs)) = map h xs"
  using assms by (induction xs arbitrary: n) auto

text \<open>
  C1. Take an input that the input parser accepts and whose price and weight strings
  parse to finite numbers. Then \<^verbatim>\<open>addProduct\<close> succeeds with one \<^verbatim>\<open>create\<close> of the
  client. It adds one product row with the input's name and description and with the
  price and weight that \<^verbatim>\<open>parseFloat\<close> gives on the input strings; it adds one image
  row for each entry of the input's image list, in order, with the entry's \<open>src\<close>, the
  product's name as \<open>alt\<close> and the new product's id; and one variant row for each entry
  of the variant list, in order, with the entry's name and image, the type \<open>color\<close> and
  the new product's id. When no older row refers to the new id, these are exactly the
  images and the variants of the new product. An input that the parser refuses ends
  the procedure with a bad request, and a price or weight that is no finite number
  makes the store refuse the create: in both cases nothing is written.
\<close>

theorem addProduct_creates:
  "(ProductInput input \<and>
    isFinite pf (parseFloat pf (input_price input)) \<and>
    isFinite pf (parseFloat pf (input_weight input)) \<longrightarrow>
    (\<exists>d' row imgs vars.
       addProduct pf ProductInput d input = Inr ((), d') \<and>
       products d' = products d @ [row] \<and>
       product_id row = cuid pf (next_id d) \<and>
       product_name row = input_name input \<and>
       product_price row = parseFloat pf (input_price input) \<and>
       product_weight row = parseFloat pf (input_weight input) \<and>
       product_description row = input_description input \<and>
       images d' = images d @ imgs \<and>
       map (\<lambda>i. (image_src i, image_alt i, image_productId i)) imgs
         = map (\<lambda>i. (src i, input_name input, cuid pf (next_id d))) (input_image input) \<and>
       variants d' = variants d @ vars \<and>
       map (\<lambda>v. (variant_name v, variant_imageSrc v, variant_type v, variant_productId v)) vars
         = map (\<lambda>v. (name v, imageSrc v, ''color'', cuid pf (next_id d))) (input_variant input) \<and>
       categories d' = categories d \<and>
       product_categories d' = product_categories d \<and>
       ((\<forall>i\<in>set (images d). image_productId i \<noteq> cuid pf (next_id d)) \<longrightarrow>
          images_of d' (cuid pf (next_id d)) = imgs) \<and>
       ((\<forall>v\<in>set (variants d). variant_productId v \<noteq> cuid pf (next_id d)) \<longrightarrow>
          variants_of d' (cuid pf (next_id d)) = vars)))
   \<and>
   (\<not> ProductInput input \<longrightarrow> addProduct pf ProductInput d input = Inl BadRequest)
   \<and>
   (ProductInput input \<and>
    \<not> (isFinite pf (parseFloat pf (input_price input)) \<and>
        isFinite pf (parseFloat pf (input_weight input))) \<longrightarrow>
      addProduct pf ProductInput d input = Inl ValidationError)"
proof (intro conjI impI)
  assume ok: "ProductInput input \<and>
    isFinite pf (parseFloat pf (input_price input)) \<and>
    isFinite pf (parseFloat pf (input_weight input))"
  let ?pid = "cuid pf (next_id d)"
  let ?imgs = "map (\<lambda>(k, i). \<lparr>image_id = cuid pf k,
                                  image_src = data_src i,
                                  image_alt = data_alt i,
                                  image_productId = ?pid\<rparr>)
                   (enumerate (next_id d + 1)
                      (map (\<lambda>image. \<lparr>data_src = src image, data_alt = input_name input\<rparr>)
                         (input_image input)))"
  let ?vars = "map (\<lambda>(k, v). \<lparr>variant_id = cuid pf k,
                                  variant_name = data_name v,
                                  variant_imageSrc = data_imageSrc v,
                                  variant_type = data_type v,
                                  variant_productId = ?pid\<rparr>)
                   (enumerate (next_id d + 1 + length ?imgs)
                      (map (\<lambda>variant. \<lparr>data_name = name variant,
                           data_imageSrc = imageSrc variant,
                           data_type = ''color''\<rparr>) (input_variant input)))"
  let ?row = "\<lparr>product_id = ?pid,
                 product_name = input_name input,
                 product_price = parseFloat pf (input_price input),
                 product_weight = parseFloat pf (input_weight input),
                 product_description = input_description input,
                 product_isActive = default_isActive pf,
                 product_createdAt = clock d\<rparr>"
  let ?d' = "d\<lparr>products := products d @ [?row],
           images := images d @ ?imgs,
           variants := variants d @ ?vars,
           next_id := next_id d + 1 + length ?imgs + length ?vars\<rparr>"
  have a: "addProduct pf ProductInput d input = Inr ((), ?d')"
    using ok by (simp add: addProduct_def product_create_def Let_def)
  have i1: "map (\<lambda>i. (image_src i, image_alt i, image_productId i)) ?imgs
       = map (\<lambda>i. (data_src i, data_alt i, ?pid))
           (map (\<lambda>image. \<lparr>data_src = src image, data_alt = input_name input\<rparr>) (input_image input))"
    by (rule map_enumerate_proj) simp
  have i: "map (\<lambda>i. (image_src i, image_alt i, image_productId i)) ?imgs
       = map (\<lambda>i. (src i, input_name input, ?pid)) (input_image input)"
    unfolding i1 by simp
  have v1: "map (\<lambda>v. (variant_name v, variant_imageSrc v, variant_type v, variant_productId v)) ?vars
       = map (\<lambda>v. (data_name v, data_imageSrc v, data_type v, ?pid))
           (map (\<lambda>variant. \<lparr>data_name = name variant,
                           data_imageSrc = imageSrc variant,
                           data_type = ''color''\<rparr>) (input_variant input))"
    by (rule map_enumerate_proj) simp
  have v: "map (\<lambda>v. (variant_name v, variant_imageSrc v, variant_type v, variant_productId v)) ?vars
       = map (\<lambda>v. (name v, imageSrc v, ''color'', ?pid)) (input_variant input)"
    unfolding v1 by simp
  have ip: "\<forall>x\<in>set ?imgs. image_productId x = ?pid"
    by auto
  have vp: "\<forall>x\<in>set ?vars. variant_productId x = ?pid"
    by auto
  have io: "images_of ?d' ?pid = ?imgs" if "\<forall>i\<in>set (images d). image_productId i \<noteq> ?pid"
    using filter_none [of "images d" "\<lambda>i. image_productId i = ?pid"] that
      filter_all [OF ip]
    by (simp add: images_of_def)
  have vo: "variants_of ?d' ?pid = ?vars" if "\<forall>v\<in>set (variants d). variant_productId v \<noteq> ?pid"
    using filter_none [of "variants d" "\<lambda>v. variant_productId v = ?pid"] that
      filter_all [OF vp]
    by (simp add: variants_of_def)
  show "\<exists>d' row imgs vars.
       addProduct pf ProductInput d input = Inr ((), d') \<and>
       products d' = products d @ [row] \<and>
       product_id row = cuid pf (next_id d) \<and>
       product_name row = input_name input \<and>
       product_price row = parseFloat pf (input_price input) \<and>
       product_weight row = parseFloat pf (input_weight input) \<and>
       product_description row = input_description input \<and>
       images d' = images d @ imgs \<and>
       map (\<lambda>i. (image_src i, image_alt i, image_productId i)) imgs
         = map (\<lambda>i. (src i, input_name input, cuid pf (next_id d))) (input_image input) \<and>
       variants d' = variants d @ vars \<and>
       map (\<lambda>v. (variant_name v, variant_imageSrc v, variant_type v, variant_productId v)) vars
         = map (\<lambda>v. (name v, imageSrc v, ''color'', cuid pf (next_id d))) (input_variant input) \<and>
       categories d' = categories d \<and>
       product_categories d' = product_categories d \<and>
       ((\<forall>i\<in>set (images d). image_productId i \<noteq> cuid pf (next_id d)) \<longrightarrow>
          images_of d' (cuid pf (next_id d)) = imgs) \<and>
       ((\<forall>v\<in>set (variants d). variant_productId v \<noteq> cuid pf (next_id d)) \<longrightarrow>
          variants_of d' (cuid pf (next_id d)) = vars)"
    apply (rule exI [of _ ?d'], rule exI [of _ ?row], rule exI [of _ ?imgs], rule exI [of _ ?vars])
    using a i v io vo by simp
next
  assume "\<not> ProductInput input"
  then show "addProduct pf ProductInput d input = Inl BadRequest"
    by (simp add: addProduct_def)
next
  assume "ProductInput input \<and>
    \<not> (isFinite pf (parseFloat pf (input_price input)) \<and>
        isFinite pf (parseFloat pf (input_weight input)))"
  then show "addProduct pf ProductInput d input = Inl ValidationError"
    by (simp add: addProduct_def product_create_def)
qed

theorem addProduct_creates_witness:
  "example_ProductInput example_payload \<and>
   isFinite example_platform (parseFloat example_platform (input_price example_payload)) \<and>
   isFinite example_platform (parseFloat example_platform (input_weight example_payload)) \<and>
   list_all (\<lambda>i. image_productId i \<noteq> cuid example_platform (next_id example_db))
     (images example_db) \<and>
   list_all (\<lambda>v. variant_productId v \<noteq> cuid example_platform (next_id example_db))
     (variants example_db) \<and>
   (\<exists>d' row.
      addProduct example_platform example_ProductInput example_db example_payload = Inr ((), d') \<and>
      products d' = [example_product, row] \<and>
      product_name row = ''Shirt'' \<and> product_price row = Some 12 \<and>
      product_weight row = Some 3 \<and>
      map image_src (images_of d' (product_id row)) = map src (input_image example_payload) \<and>
      map image_alt (images_of d' (product_id row)) = [''Shirt'', ''Shirt'', ''Shirt''] \<and>
      map variant_name (variants_of d' (product_id row)) = [''Red''] \<and>
      map variant_type (variants_of d' (product_id row)) = [''color'']) \<and>
   example_ProductInput (example_payload\<lparr>input_price := ''abc''\<rparr>) \<and>
   \<not> isFinite example_platform (parseFloat example_platform ''abc'') \<and>
   addProduct example_platform example_ProductInput example_db
     (example_payload\<lparr>input_price := ''abc''\<rparr>) = Inl ValidationError"
proof -
  let ?pid = "cuid example_platform (next_id example_db)"
  have a1: "example_ProductInput example_payload"
    by (simp add: example_ProductInput_def example_payload_def)
  have a2: "isFinite example_platform (parseFloat example_platform (input_price example_payload))"
    by (simp add: example_platform_def example_payload_def)
  have a3: "isFinite example_platform (parseFloat example_platform (input_weight example_payload))"
    by (simp add: example_platform_def example_payload_def)
  have h1: "\<forall>i\<in>set (images example_db). image_productId i \<noteq> ?pid"
    by (simp add: example_db_def example_platform_def)
  have h2: "\<forall>v\<in>set (variants example_db). variant_productId v \<noteq> ?pid"
    by (simp add: example_db_def example_platform_def)
  from addProduct_creates [of example_ProductInput example_payload example_platform example_db]
    a1 a2 a3
  obtain d' row imgs vars where
    a: "addProduct example_platform example_ProductInput example_db example_payload = Inr ((), d')"
    and p: "products d' = products example_db @ [row]"
    and r: "product_id row = ?pid" "product_name row = input_name example_payload"
      "product_price row = parseFloat example_platform (input_price example_payload)"
      "product_weight row = parseFloat example_platform (input_weight example_payload)"
    and i: "map (\<lambda>i. (image_src i, image_alt i, image_productId i)) imgs
       = map (\<lambda>i. (src i, input_name example_payload, ?pid)) (input_image example_payload)"
    and v: "map (\<lambda>v. (variant_name v, variant_imageSrc v, variant_type v, variant_productId v)) vars
       = map (\<lambda>v. (name v, imageSrc v, ''color'', ?pid)) (input_variant example_payload)"
    and io: "(\<forall>i\<in>set (images example_db). image_productId i \<noteq> ?pid) \<longrightarrow>
        images_of d' ?pid = imgs"
    and vo: "(\<forall>v\<in>set (variants example_db). variant_productId v \<noteq> ?pid) \<longrightarrow>
        variants_of d' ?pid = vars"
    by blast
  have io': "images_of d' (product_id row) = imgs" using io h1 r(1) by simp
  have vo': "variants_of d' (product_id row) = vars" using vo h2 r(1) by simp
  have i1: "map image_src (images_of d' (product_id row)) = map src (input_image example_payload)"
    unfolding io' using arg_cong [OF i, of "map fst"] by (simp add: o_def)
  have i2: "map image_alt (images_of d' (product_id row)) = [''Shirt'', ''Shirt'', ''Shirt'']"
    unfolding io' using arg_cong [OF i, of "map (\<lambda>t. fst (snd t))"]
    by (simp add: o_def example_payload_def)
  have v1: "map variant_name (variants_of d' (product_id row)) = [''Red'']"
    unfolding vo' using arg_cong [OF v, of "map fst"] by (simp add: o_def example_payload_def)
  have v2: "map variant_type (variants_of d' (product_id row)) = [''color'']"
    unfolding vo' using arg_cong [OF v, of "map (\<lambda>t. fst (snd (snd t)))"]
    by (simp add: o_def example_payload_def)
  have r': "product_name row = ''Shirt''" "product_price row = Some 12"
    "product_weight row = Some 3"
    using r(2-4) by (simp_all add: example_payload_def example_platform_def)
  have p': "products d' = [example_product, row]"
    using p by (simp add: example_db_def)
  have g1: "list_all (\<lambda>i. image_productId i \<noteq> ?pid) (images example_db)"
    using h1 by (simp add: list_all_iff)
  have g2: "list_all (\<lambda>v. variant_productId v \<noteq> ?pid) (variants example_db)"
    using h2 by (simp add: list_all_iff)
  have b1: "example_ProductInput (example_payload\<lparr>input_price := ''abc''\<rparr>)"
    by (simp add: example_ProductInput_def example_payload_def)
  have b2: "\<not> isFinite example_platform (parseFloat example_platform ''abc'')"
    by (simp add: example_platform_def)
  have b3: "addProduct example_platform example_ProductInput example_db
     (example_payload\<lparr>input_price := ''abc''\<rparr>) = Inl ValidationError"
    using addProduct_creates [of example_ProductInput "example_payload\<lparr>input_price := ''abc''\<rparr>"
        example_platform example_db] b1 b2
    by simp
  show ?thesis
    by (intro conjI exI [of _ d'] exI [of _ row] a1 a2 a3 g1 g2 a p' r' i1 i2 v1 v2 b1 b2 b3)
qed

subsection \<open>The batch of variants\<close>

lemma find_variant_append_new:
  assumes "find (\<lambda>v. variant_id v = vid) vs = None" and "variant_id w \<noteq> vid"
  shows "find (\<lambda>v. variant_id v = vid) (vs @ [w]) = None"
  using assms by (induction vs) (auto split: if_splits)

text \<open>A batch with an entry whose name or image is empty is refused whole.\<close>

lemma addVariant_refused:
  assumes "\<not> addVariant_input entries"
  shows "addVariant pf d entries = Inl BadRequest"
  using assms by (simp add: addVariant_def)

text \<open>
  C7. Take a batch of two entries for \<^verbatim>\<open>addVariant\<close>, each with a name and an image
  of at least one character, as the input parser of the procedure asks: an update whose
  id is the id of no variant, and a create for a product that is in the store. In either
  order of the two, the update fails with a record-not-found error of the store, the
  procedure still succeeds, and the store afterwards is the old store with the created
  variant appended (type \<open>color\<close>): the failure of the one entry undoes nothing of the
  other.
\<close>

theorem addVariant_not_atomic:
  assumes "entry_name u \<noteq> []" and "entry_imageSrc u \<noteq> []"
    and "entry_name c \<noteq> []" and "entry_imageSrc c \<noteq> []"
    and "\<not> entry_add u"
    and "find (\<lambda>v. variant_id v = entry_id u) (variants d) = None"
    and "entry_id u \<noteq> cuid pf (next_id d)"
    and "entry_add c"
    and "product_findUnique d (entry_productId c) = Some p"
  shows "\<exists>d'.
           d' = d\<lparr>variants := variants d @
                     [\<lparr>variant_id = cuid pf (next_id d),
                       variant_name = entry_name c,
                       variant_imageSrc = entry_imageSrc c,
                       variant_type = ''color'',
                       variant_productId = entry_productId c\<rparr>],
                   next_id := next_id d + 1\<rparr> \<and>
           addVariant_entry pf d u = Inl RecordNotFound \<and>
           addVariant_entry pf d' u = Inl RecordNotFound \<and>
           addVariant pf d [u, c] = Inr ((), d') \<and>
           addVariant pf d [c, u] = Inr ((), d')"
proof -
  let ?w = "\<lparr>variant_id = cuid pf (next_id d),
                       variant_name = entry_name c,
                       variant_imageSrc = entry_imageSrc c,
                       variant_type = ''color'',
                       variant_productId = entry_productId c\<rparr>"
  let ?d' = "d\<lparr>variants := variants d @ [?w], next_id := next_id d + 1\<rparr>"
  have len: "1 \<le> length (entry_name u)" "1 \<le> length (entry_imageSrc u)"
    "1 \<le> length (entry_name c)" "1 \<le> length (entry_imageSrc c)"
    using assms(1-4) by (simp_all add: Suc_le_eq)
  have ok: "addVariant_input [u, c]" "addVariant_input [c, u]"
    using len by (simp_all add: addVariant_input_def)
  have u0: "addVariant_entry pf d u = Inl RecordNotFound"
    using assms(5,6) by (simp add: addVariant_entry_def variant_update_def)
  have c0: "addVariant_entry pf d c = Inr ?d'"
    using assms(8,9) by (simp add: addVariant_entry_def variant_create_def)
  have "find (\<lambda>v. variant_id v = entry_id u) (variants d @ [?w]) = None"
    by (rule find_variant_append_new [OF assms(6)]) (use assms(7) in simp)
  then have u1: "addVariant_entry pf ?d' u = Inl RecordNotFound"
    using assms(5) by (simp add: addVariant_entry_def variant_update_def)
  have a1: "addVariant pf d [u, c] = Inr ((), ?d')"
    using u0 c0 ok(1) by (simp add: addVariant_def)
  have a2: "addVariant pf d [c, u] = Inr ((), ?d')"
    using u1 c0 ok(2) by (simp add: addVariant_def)
  show ?thesis
    using u0 u1 a1 a2 by blast
qed

theorem addVariant_not_atomic_witness:
  "entry_name example_bad_update \<noteq> [] \<and> entry_imageSrc example_bad_update \<noteq> [] \<and>
   entry_name example_create \<noteq> [] \<and> entry_imageSrc example_create \<noteq> [] \<and>
   \<not> entry_add example_bad_update \<and>
   find (\<lambda>v. variant_id v = entry_id example_bad_update) (variants example_db) = None \<and>
   entry_id example_bad_update \<noteq> cuid example_platform (next_id example_db) \<and>
   entry_add example_create \<and>
   product_findUnique example_db (entry_productId example_create) = Some example_product \<and>
   (\<exists>d'.
      addVariant_entry example_platform example_db example_bad_update = Inl RecordNotFound \<and>
      addVariant example_platform example_db [example_bad_update, example_create] = Inr ((), d') \<and>
      addVariant example_platform example_db [example_create, example_bad_update] = Inr ((), d') \<and>
      map variant_name (variants d') = [''White'', ''Green''] \<and>
      map variant_type (variants d') = [''color'', ''color''])"
proof -
  have n1: "entry_name example_bad_update \<noteq> []" "entry_imageSrc example_bad_update \<noteq> []"
    by (simp_all add: example_bad_update_def)
  have n2: "entry_name example_create \<noteq> []" "entry_imageSrc example_create \<noteq> []"
    by (simp_all add: example_create_def)
  have h1: "\<not> entry_add example_bad_update"
    by (simp add: example_bad_update_def)
  have h2: "find (\<lambda>v. variant_id v = entry_id example_bad_update) (variants example_db) = None"
    by (simp add: example_bad_update_def example_db_def)
  have h3: "entry_id example_bad_update \<noteq> cuid example_platform (next_id example_db)"
    by (simp add: example_bad_update_def example_platform_def)
  have h4: "entry_add example_create"
    by (simp add: example_create_def)
  have h5: "product_findUnique example_db (entry_productId example_create) = Some example_product"
    using example_product_found by (simp add: example_create_def)
  from addVariant_not_atomic [OF n1 n2 h1 h2 h3 h4 h5]
  obtain d' where
    d: "d' = example_db\<lparr>variants := variants example_db @
                     [\<lparr>variant_id = cuid example_platform (next_id example_db),
                       variant_name = entry_name example_create,
                       variant_imageSrc = entry_imageSrc example_create,
                       variant_type = ''color'',
                       variant_productId = entry_productId example_create\<rparr>],
                   next_id := next_id example_db + 1\<rparr>"
    and r: "addVariant_entry example_platform example_db example_bad_update = Inl RecordNotFound"
      "addVariant example_platform example_db [example_bad_update, example_create] = Inr ((), d')"
      "addVariant example_platform example_db [example_create, example_bad_update] = Inr ((), d')"
    by blast
  have n: "map variant_name (variants d') = [''White'', ''Green'']"
    "map variant_type (variants d') = [''color'', ''color'']"
    unfolding d by (simp_all add: example_db_def example_create_def)
  show ?thesis
    by (intro conjI exI [of _ d'] n1 n2 h1 h2 h3 h4 h5 r n)
qed

subsection \<open>Reading the banner\<close>

text \<open>
  C9. Whatever the lookup of the settings does, \<^verbatim>\<open>getBannerText\<close> returns a value
  and never an error: null when the lookup fails, and what the lookup found when it
  succeeds, which for the store is the row with the name \<open>banner\<close>, or null when there
  is no such row.
\<close>

theorem getBannerText_suppresses:
  "(\<exists>r. getBannerText findUnique = Inr r) \<and>
   (\<forall>e. findUnique ''banner'' = Inl e \<longrightarrow> getBannerText findUnique = Inr None) \<and>
   (\<forall>r. findUnique ''banner'' = Inr r \<longrightarrow> getBannerText findUnique = Inr r) \<and>
   getBannerText (settings_findUnique d)
     = Inr (find (\<lambda>s. settings_name s = ''banner'') (settings_table d))"
  by (cases "findUnique ''banner''") (simp_all add: getBannerText_def settings_findUnique_def)

theorem getBannerText_suppresses_witness:
  "getBannerText (\<lambda>nm. Inl (StoreFailure ''connection refused'')) = Inr None \<and>
   settings_findUnique example_db ''banner'' = Inr (Some example_banner) \<and>
   getBannerText (settings_findUnique example_db) = Inr (Some example_banner) \<and>
   getBannerText (settings_findUnique (example_db\<lparr>settings_table := []\<rparr>)) = Inr None"
proof -
  have a: "getBannerText (\<lambda>nm. Inl (StoreFailure ''connection refused'')) = Inr None"
    using getBannerText_suppresses
      [of "\<lambda>nm. Inl (StoreFailure ''connection refused'')" example_db]
    by simp
  have b: "settings_findUnique example_db ''banner'' = Inr (Some example_banner)"
    by (simp add: settings_findUnique_def example_db_def example_banner_def)
  have c: "getBannerText (settings_findUnique example_db) = Inr (Some example_banner)"
    using b getBannerText_suppresses [of "settings_findUnique example_db" example_db]
    by simp
  have e: "getBannerText (settings_findUnique (example_db\<lparr>settings_table := []\<rparr>)) = Inr None"
    using getBannerText_suppresses
      [of "settings_findUnique (example_db\<lparr>settings_table := []\<rparr>)"
          "example_db\<lparr>settings_table := []\<rparr>"]
    by simp
  show ?thesis using a b c e by simp
qed

section \<open>Properties of the product creation form\<close>

subsection \<open>The rewritten URL\<close>

lemma replace_prefix: "prefix pat s \<Longrightarrow> replace pat rep s = rep @ drop (length pat) s"
  by (cases s) auto

lemma cloudFrontUrl_cdn:
  "prefix s3_host url \<Longrightarrow> cloudFrontUrl url = cloudfront_host @ drop (length s3_host) url"
  by (simp add: cloudFrontUrl_def replace_prefix)

lemma cloudFrontUrl_append: "cloudFrontUrl (s3_host @ rest) = cloudfront_host @ rest"
  by (simp add: cloudFrontUrl_cdn)

lemma cloudFrontUrl_ok: "prefix s3_host url \<Longrightarrow> url_ok (cloudFrontUrl url)"
  by (simp add: cloudFrontUrl_cdn url_ok_def)

lemma hosts_differ: "\<not> prefix cloudfront_host s3_host" "\<not> prefix s3_host cloudfront_host"
  by (simp_all add: cloudfront_host_def s3_host_def)

lemma cdn_not_s3: "prefix cloudfront_host s \<Longrightarrow> \<not> prefix s3_host s"
  using hosts_differ prefix_same_cases by blast

subsection \<open>Every handler keeps the invariant\<close>

lemma upload_each_ok:
  assumes "\<And>f url. up f = Some url \<Longrightarrow> prefix s3_host url"
    and "upload_each up fs (ps, urls) = Some (ps', urls')"
    and "list_all url_ok urls"
  shows "list_all url_ok urls'"
  using assms(2,3)
proof (induction fs arbitrary: ps urls)
  case Nil
  then show ?case by simp
next
  case (Cons f fs)
  from Cons.prems(1) obtain url where u: "up f = Some url"
    and r: "upload_each up fs (ps @ [f], urls @ [cloudFrontUrl url]) = Some (ps', urls')"
    by (cases "up f") simp_all
  have "url_ok (cloudFrontUrl url)"
    using assms(1) [OF u] by (rule cloudFrontUrl_ok)
  with Cons.prems(2) have "list_all url_ok (urls @ [cloudFrontUrl url])"
    by simp
  with r show ?case by (rule Cons.IH)
qed

lemma list_all_update: "list_all P xs \<Longrightarrow> P x \<Longrightarrow> list_all P (xs[i := x])"
  by (induction xs arbitrary: i) (auto split: nat.splits)

lemma list_all_replicate: "P x \<Longrightarrow> list_all P (replicate n x)"
  by (induction n) simp_all

lemma set_variant_imageSrc_ok:
  assumes "url_ok v" and "variants_ok rows"
  shows "variants_ok (set_variant_imageSrc index v rows)"
proof (cases "index < length rows")
  case True
  have "row_ok (case rows ! index of
                  None \<Rightarrow> Some \<lparr>field_name = None, field_imageSrc = Some v\<rparr>
                | Some r \<Rightarrow> Some (r\<lparr>field_imageSrc := Some v\<rparr>))"
    using assms(1) by (simp add: row_ok_def split: option.splits)
  with True assms(2) show ?thesis
    by (simp add: set_variant_imageSrc_def variants_ok_def list_all_update)
next
  case False
  have "row_ok None" "row_ok (Some \<lparr>field_name = None, field_imageSrc = Some v\<rparr>)"
    using assms(1) by (simp_all add: row_ok_def)
  with False assms(2) show ?thesis
    by (simp add: set_variant_imageSrc_def variants_ok_def list_all_replicate)
qed

lemma set_variant_name_ok:
  assumes "variants_ok rows"
  shows "variants_ok (set_variant_name index v rows)"
proof (cases "index < length rows")
  case True
  then have "row_ok (rows ! index)"
    using assms by (simp add: variants_ok_def list_all_length)
  then have "row_ok (case rows ! index of
                  None \<Rightarrow> Some \<lparr>field_name = Some v, field_imageSrc = None\<rparr>
                | Some r \<Rightarrow> Some (r\<lparr>field_name := Some v\<rparr>))"
    by (simp add: row_ok_def split: option.splits)
  with True assms show ?thesis
    by (simp add: set_variant_name_def variants_ok_def list_all_update)
next
  case False
  have "row_ok None" "row_ok (Some \<lparr>field_name = Some v, field_imageSrc = None\<rparr>)"
    by (simp_all add: row_ok_def)
  with False assms show ?thesis
    by (simp add: set_variant_name_def variants_ok_def list_all_replicate)
qed

lemma variants_ok_remove:
  assumes "variants_ok rows"
  shows "variants_ok (take index rows @ drop (Suc index) rows)"
proof -
  have "set (take index rows @ drop (Suc index) rows) \<subseteq> set rows"
    using set_take_subset set_drop_subset by fastforce
  with assms show ?thesis
    unfolding variants_ok_def list_all_iff by blast
qed

lemma variants_ok_append_blank:
  "variants_ok rows \<Longrightarrow> variants_ok (rows @ [Some \<lparr>field_name = Some [], field_imageSrc = Some []\<rparr>])"
  by (simp add: variants_ok_def row_ok_def url_ok_def)

lemma onProductImageChange_inv:
  assumes up: "\<And>f url. up f = Some url \<Longrightarrow> prefix s3_host url"
    and inv: "form_inv st"
  shows "form_inv (onProductImageChange up files st)"
proof (cases files)
  case None
  with inv show ?thesis by (simp add: onProductImageChange_def)
next
  case (Some fs)
  show ?thesis
  proof (cases "upload_each up fs ([], [])")
    case None
    with Some inv show ?thesis by (simp add: onProductImageChange_def)
  next
    case (Some r)
    obtain ps urls where r: "r = (ps, urls)" by (cases r)
    have e: "upload_each up fs ([], []) = Some (ps, urls)" using Some r by simp
    have "list_all url_ok urls"
      by (rule upload_each_ok [OF up e]) simp_all
    then have "images_ok (map (\<lambda>url. \<lparr>src = url\<rparr>) urls)"
      by (simp add: images_ok_def list_all_iff)
    moreover have "onProductImageChange up files st =
        st\<lparr>imagePreviews := Some ps, form_image := map (\<lambda>url. \<lparr>src = url\<rparr>) urls\<rparr>"
      using e \<open>files = Some fs\<close> by (simp add: onProductImageChange_def)
    ultimately show ?thesis
      using inv by (simp add: form_inv_def)
  qed
qed

lemma handleAddMoreImages_cases:
  "handleAddMoreImages up files st = st \<or>
   (\<exists>fl rest url. files = Some (fl # rest) \<and> up fl = Some url \<and>
      form_image (handleAddMoreImages up files st) = form_image st @ [\<lparr>src = cloudFrontUrl url\<rparr>] \<and>
      form_variant (handleAddMoreImages up files st) = form_variant st)"
proof (cases files)
  case None
  then show ?thesis by (simp add: handleAddMoreImages_def)
next
  case (Some fs)
  show ?thesis
  proof (cases fs)
    case Nil
    with Some show ?thesis by (simp add: handleAddMoreImages_def)
  next
    case (Cons fl rest)
    show ?thesis
    proof (cases "up fl")
      case None
      with Some Cons show ?thesis by (simp add: handleAddMoreImages_def)
    next
      case (Some url)
      with \<open>files = Some fs\<close> Cons show ?thesis
        by (cases "imagePreviews st") (simp_all add: handleAddMoreImages_def Let_def)
    qed
  qed
qed

lemma handleAddMoreImages_inv:
  assumes up: "\<And>f url. up f = Some url \<Longrightarrow> prefix s3_host url"
    and inv: "form_inv st"
  shows "form_inv (handleAddMoreImages up files st)"
  using handleAddMoreImages_cases [of up files st]
proof (elim disjE exE conjE)
  assume "handleAddMoreImages up files st = st"
  with inv show ?thesis by simp
next
  fix fl rest url
  assume u: "up fl = Some url"
    and i: "form_image (handleAddMoreImages up files st) = form_image st @ [\<lparr>src = cloudFrontUrl url\<rparr>]"
    and v: "form_variant (handleAddMoreImages up files st) = form_variant st"
  have "url_ok (cloudFrontUrl url)" using up [OF u] by (rule cloudFrontUrl_ok)
  with inv show ?thesis
    unfolding form_inv_def i v by (simp add: images_ok_def)
qed

lemma onVariantImageChange_cases:
  "onVariantImageChange up files index st = st \<or>
   (\<exists>fl rest url. files = Some (fl # rest) \<and> up fl = Some url \<and>
      onVariantImageChange up files index st =
        st\<lparr>form_variant := set_variant_imageSrc index (cloudFrontUrl url) (form_variant st)\<rparr>)"
proof (cases files)
  case None
  then show ?thesis by (simp add: onVariantImageChange_def)
next
  case (Some fs)
  show ?thesis
  proof (cases fs)
    case Nil
    with Some show ?thesis by (simp add: onVariantImageChange_def)
  next
    case (Cons fl rest)
    with Some show ?thesis
      by (cases "up fl") (simp_all add: onVariantImageChange_def)
  qed
qed

lemma onVariantImageChange_inv:
  assumes up: "\<And>f url. up f = Some url \<Longrightarrow> prefix s3_host url"
    and inv: "form_inv st"
  shows "form_inv (onVariantImageChange up files index st)"
  using onVariantImageChange_cases [of up files index st]
proof (elim disjE exE conjE)
  assume "onVariantImageChange up files index st = st"
  with inv show ?thesis by simp
next
  fix fl rest url
  assume u: "up fl = Some url"
    and e: "onVariantImageChange up files index st =
        st\<lparr>form_variant := set_variant_imageSrc index (cloudFrontUrl url) (form_variant st)\<rparr>"
  have "url_ok (cloudFrontUrl url)" using up [OF u] by (rule cloudFrontUrl_ok)
  then have "variants_ok (set_variant_imageSrc index (cloudFrontUrl url) (form_variant st))"
    using inv by (simp add: set_variant_imageSrc_ok form_inv_def)
  with inv show ?thesis
    unfolding e by (simp add: form_inv_def)
qed

lemma handle_inv:
  assumes up: "\<And>f url. up f = Some url \<Longrightarrow> prefix s3_host url"
    and inv: "form_inv st"
  shows "form_inv (handle up st ev)"
proof (cases ev)
  case (ProductImageChange files)
  then show ?thesis using onProductImageChange_inv [OF up inv] by simp
next
  case (AddMoreImages files)
  then show ?thesis using handleAddMoreImages_inv [OF up inv] by simp
next
  case (VariantImageChange files index)
  then show ?thesis using onVariantImageChange_inv [OF up inv] by simp
next
  case AppendVariant
  then show ?thesis using inv by (simp add: form_inv_def variants_ok_append_blank)
next
  case (RemoveVariant index)
  then show ?thesis using inv by (simp add: form_inv_def variants_ok_remove)
next
  case (TypeVariantName index v)
  then show ?thesis using inv by (simp add: form_inv_def set_variant_name_ok)
qed (use inv in \<open>simp_all add: form_inv_def\<close>)

lemma run_inv:
  assumes "\<And>f url. up f = Some url \<Longrightarrow> prefix s3_host url" and "form_inv st"
  shows "form_inv (run up st evs)"
  using assms(2) by (induction evs arbitrary: st) (simp_all add: handle_inv [OF assms(1)])

lemma defaultValues_inv: "form_inv defaultValues"
  by (simp add: form_inv_def defaultValues_def images_ok_def variants_ok_def row_ok_def url_ok_def)

subsection \<open>The submitted payload\<close>

lemma parse_variants_rows:
  "parse_variants rows = Some vs \<Longrightarrow> variants_ok rows \<Longrightarrow>
     list_all (\<lambda>v. imageSrc v \<noteq> [] \<and> url_ok (imageSrc v)) vs"
proof (induction rows arbitrary: vs)
  case Nil
  then show ?case by simp
next
  case (Cons a rows)
  show ?case
  proof (cases a)
    case None
    with Cons.prems(1) show ?thesis by simp
  next
    case (Some r)
    with Cons.prems(1) obtain n i vs' where
      f: "field_name r = Some n" "field_imageSrc r = Some i"
      and l: "string_min_max 1 10000 i"
      and p: "parse_variants rows = Some vs'"
      and v: "vs = \<lparr>name = n, imageSrc = i\<rparr> # vs'"
      by (auto split: option.splits if_splits)
    have ok: "url_ok i" "variants_ok rows"
      using Cons.prems(2) f Some by (simp_all add: variants_ok_def row_ok_def)
    have ne: "i \<noteq> []" using l by (auto simp add: string_min_max_def)
    have "list_all (\<lambda>v. imageSrc v \<noteq> [] \<and> url_ok (imageSrc v)) vs'"
      using p ok(2) by (rule Cons.IH)
    with ok(1) ne v show ?thesis by simp
  qed
qed

text \<open>
  C6. Let every upload that succeeds return a URL that starts with the storage host.
  Then, after any sequence of events at the form from its default values, a form that
  passes the schema is submitted with a payload in which every product image URL and
  every variant image URL starts with the CDN host, and none starts with the storage
  host: each handler wrote the uploaded URL with its storage host replaced.
\<close>

theorem payload_uses_cdn:
  assumes "\<forall>f url. uploadToS3 f = Some url \<longrightarrow> prefix s3_host url"
    and "schema_parse (run uploadToS3 defaultValues evs) = Some payload"
  shows "(\<forall>i\<in>set (input_image payload).
            prefix cloudfront_host (src i) \<and> \<not> prefix s3_host (src i)) \<and>
         (\<forall>v\<in>set (input_variant payload).
            prefix cloudfront_host (imageSrc v) \<and> \<not> prefix s3_host (imageSrc v))"
proof -
  let ?st = "run uploadToS3 defaultValues evs"
  have inv: "form_inv ?st"
    by (rule run_inv) (use assms(1) in \<open>simp_all add: defaultValues_inv\<close>)
  have img: "input_image payload = form_image ?st"
    and imgs: "list_all (\<lambda>i. string_min_max 1 1000 (src i)) (form_image ?st)"
    and var: "parse_variants (form_variant ?st) = Some (input_variant payload)"
    using assms(2) by (auto simp add: schema_parse_def split: if_splits option.splits)
  have a: "prefix cloudfront_host (src i)" if h: "i \<in> set (input_image payload)" for i
  proof -
    have "url_ok (src i)"
      using inv h img by (simp add: form_inv_def images_ok_def list_all_iff)
    moreover have "src i \<noteq> []"
      using imgs h img by (auto simp add: list_all_iff string_min_max_def)
    ultimately show ?thesis by (simp add: url_ok_def)
  qed
  have "list_all (\<lambda>v. imageSrc v \<noteq> [] \<and> url_ok (imageSrc v)) (input_variant payload)"
    using var inv by (simp add: parse_variants_rows form_inv_def)
  then have b: "prefix cloudfront_host (imageSrc v)" if h: "v \<in> set (input_variant payload)" for v
    using h by (auto simp add: list_all_iff url_ok_def)
  show ?thesis using a b cdn_not_s3 by blast
qed

lemma example_run:
  "run example_upload defaultValues example_events =
     \<lparr>form_name = ''Shirt'', form_price = ''12'', form_weight = ''3'',
      form_description = ''Cotton'',
      form_image = input_image example_payload,
      form_variant = [Some \<lparr>field_name = Some ''Red'',
                        field_imageSrc = Some (cloudfront_host @ ''/next-s3-uploads/red.png'')\<rparr>],
      imagePreviews = Some [''front.png'', ''back.png'', ''side.png'']\<rparr>"
  by (simp add: example_events_def example_upload_def defaultValues_def example_payload_def
      onProductImageChange_def handleAddMoreImages_def onVariantImageChange_def
      set_variant_imageSrc_def set_variant_name_def cloudFrontUrl_append)

lemma example_parse:
  "schema_parse (run example_upload defaultValues example_events) = Some example_payload"
  unfolding example_run
  by (simp add: schema_parse_def string_min_max_def example_payload_def cloudfront_host_def)

theorem payload_uses_cdn_witness:
  "\<not> (\<exists>f url. example_upload f = Some url \<and> \<not> prefix s3_host url) \<and>
   schema_parse (run example_upload defaultValues example_events) = Some example_payload \<and>
   list_all (\<lambda>i. prefix cloudfront_host (src i) \<and> \<not> prefix s3_host (src i))
     (input_image example_payload) \<and>
   list_all (\<lambda>v. prefix cloudfront_host (imageSrc v) \<and> \<not> prefix s3_host (imageSrc v))
     (input_variant example_payload) \<and>
   length (input_image example_payload) = 3 \<and>
   length (input_variant example_payload) = 1"
proof -
  have h1: "\<forall>f url. example_upload f = Some url \<longrightarrow> prefix s3_host url"
    by (auto simp add: example_upload_def)
  have n: "length (input_image example_payload) = 3" "length (input_variant example_payload) = 1"
    by (simp_all add: example_payload_def)
  from payload_uses_cdn [OF h1 example_parse]
  have "list_all (\<lambda>i. prefix cloudfront_host (src i) \<and> \<not> prefix s3_host (src i))
          (input_image example_payload)"
    and "list_all (\<lambda>v. prefix cloudfront_host (imageSrc v) \<and> \<not> prefix s3_host (imageSrc v))
          (input_variant example_payload)"
    unfolding list_all_iff by blast+
  with h1 example_parse n show ?thesis by blast
qed

subsection \<open>Adding more images\<close>

text \<open>
  C8. The picker for more images allows several files (its input has the attribute
  \<^verbatim>\<open>multiple\<close>), but \<^verbatim>\<open>handleAddMoreImages\<close> uploads the first file of the selection
  only. With one image in the form and a selection of two files, the form ends with
  two image URLs, not three: the first selected file is uploaded, rewritten and
  appended, the second is dropped.
\<close>

theorem handleAddMoreImages_two_files:
  "form_image (handleAddMoreImages example_upload (Some [''side.png'', ''top.png''])
                 (onProductImageChange example_upload (Some [''front.png'']) defaultValues))
     = [\<lparr>src = cloudfront_host @ ''/next-s3-uploads/front.png''\<rparr>,
        \<lparr>src = cloudfront_host @ ''/next-s3-uploads/side.png''\<rparr>]"
  by (simp add: example_upload_def defaultValues_def onProductImageChange_def
      handleAddMoreImages_def cloudFrontUrl_append)

text \<open>
  What does hold of \<^verbatim>\<open>handleAddMoreImages\<close>: it never replaces the list, and a
  selection is treated as its first file alone.
\<close>

lemma handleAddMoreImages_appends:
  "prefix (form_image st) (form_image (handleAddMoreImages up files st))"
  using handleAddMoreImages_cases [of up files st] by auto

lemma handleAddMoreImages_first_only:
  "handleAddMoreImages up (Some (f # rest)) st = handleAddMoreImages up (Some [f]) st"
  by (simp add: handleAddMoreImages_def)

end
